theory Spec2Isabelle
  imports Complex_Main
begin

section \<open>JavaScript values used by the tracker\<close>

text \<open>
  The dashboard keeps prices as JavaScript numbers that are either read from a JSON
  payload or absent.  A price is modelled as \<open>real option\<close>: \<open>None\<close> stands for the
  nullish values \<open>null\<close> and \<open>undefined\<close> (the code only ever tells them apart from
  numbers, through \<open>??\<close>, \<open>=== null || === undefined\<close> and truthiness), \<open>Some x\<close> is the
  number \<open>x\<close>.  A number in the store is a finite double, held as the real it denotes
  (a JSON payload cannot carry \<open>NaN\<close> or an infinity).  What the code computes from
  stored numbers (differences, ratios, the projected price) is computed in binary64,
  with the rounding of every operation; see the section on binary64 arithmetic.
\<close>

type_synonym num = "real option"

datatype error = TypeError

definition truthy :: "num \<Rightarrow> bool" where
  \<comment> \<open>the test \<open>if (x)\<close>: \<open>0\<close>, \<open>null\<close> and \<open>undefined\<close> are falsy\<close>
  "truthy v = (case v of None \<Rightarrow> False | Some x \<Rightarrow> x \<noteq> 0)"

definition nullish_or :: "num \<Rightarrow> num \<Rightarrow> num" where
  \<comment> \<open>the operator \<open>a ?? b\<close>\<close>
  "nullish_or a b = (case a of None \<Rightarrow> b | Some x \<Rightarrow> Some x)"

definition elem :: "'a option list \<Rightarrow> nat \<Rightarrow> 'a option" where
  \<comment> \<open>\<open>arr[i]\<close>: reading past the end of an array gives \<open>undefined\<close>\<close>
  "elem arr i = (if i < length arr then arr ! i else None)"

section \<open>Anchor detection\<close>

definition TARGET_UTC :: int where
  "TARGET_UTC = 10 * 60"

definition candleMin :: "int \<Rightarrow> int option" where
  \<comment> \<open>\<open>d = new Date(t * 1000); d.getUTCHours() * 60 + d.getUTCMinutes()\<close>.
      A time value beyond 8.64e15 ms makes an invalid Date, whose fields are \<open>NaN\<close>
      (\<open>None\<close> here).  Otherwise hours and minutes are the floor-modulo fields of the
      time value, so the sum is the minute of the UTC day.\<close>
  "candleMin t =
     (if \<bar>t * 1000\<bar> \<le> 8640000000000000
      then Some (((t * 1000) div 3600000) mod 24 * 60 + ((t * 1000) div 60000) mod 60)
      else None)"

fun anchor_scan :: "int list \<Rightarrow> real option list \<Rightarrow> nat \<Rightarrow> nat option \<Rightarrow> int \<Rightarrow> num" where
  \<comment> \<open>the loop \<open>for (i = timestamps.length - 1; i >= 0; i--)\<close> of \<open>findAnchor1530\<close>;
      the third argument is \<open>i + 1\<close>, \<open>best\<close> is \<open>bestIdx\<close> (\<open>None\<close> for \<open>-1\<close>)\<close>
  "anchor_scan timestamps closes 0 best minDiff =
     (case best of None \<Rightarrow> None | Some b \<Rightarrow> elem closes b)"
| "anchor_scan timestamps closes (Suc i) best minDiff =
     (case elem closes i of
        None \<Rightarrow> anchor_scan timestamps closes i best minDiff
      | Some c \<Rightarrow>
          (case candleMin (timestamps ! i) of
             None \<Rightarrow> anchor_scan timestamps closes i best minDiff
           | Some m \<Rightarrow>
               (let diff = \<bar>m - TARGET_UTC\<bar> in
                if diff \<le> 5 then Some c
                else if diff < minDiff then anchor_scan timestamps closes i (Some i) diff
                else anchor_scan timestamps closes i best minDiff)))"

definition findAnchor1530 :: "int list option \<Rightarrow> real option list option \<Rightarrow> error + num" where
  \<comment> \<open>\<open>timestamps.length\<close> throws on an absent array, and so does \<open>closes[i]\<close> as soon as
      the loop body runs\<close>
  "findAnchor1530 timestamps closes =
     (case timestamps of
        None \<Rightarrow> Inl TypeError
      | Some ts \<Rightarrow>
          (case closes of
             None \<Rightarrow> (if ts = [] then Inr None else Inl TypeError)
           | Some cs \<Rightarrow> Inr (anchor_scan ts cs (length ts) None 30)))"

definition sample_diff :: "int list \<Rightarrow> real option list \<Rightarrow> nat \<Rightarrow> int option" where
  \<comment> \<open>distance in minutes of sample \<open>i\<close> from the cutoff, for a sample the loop looks at:
      its close is a number and its timestamp a valid date\<close>
  "sample_diff timestamps closes i =
     (case elem closes i of
        None \<Rightarrow> None
      | Some c \<Rightarrow> map_option (\<lambda>m. \<bar>m - TARGET_UTC\<bar>) (candleMin (timestamps ! i)))"

definition within_tolerance :: "int list \<Rightarrow> real option list \<Rightarrow> nat \<Rightarrow> bool" where
  "within_tolerance timestamps closes i =
     (case sample_diff timestamps closes i of None \<Rightarrow> False | Some d \<Rightarrow> d \<le> 5)"

definition within_window :: "int list \<Rightarrow> real option list \<Rightarrow> nat \<Rightarrow> bool" where
  "within_window timestamps closes i =
     (case sample_diff timestamps closes i of None \<Rightarrow> False | Some d \<Rightarrow> d < 30)"

definition utc_day :: "int \<Rightarrow> int" where
  \<comment> \<open>the UTC calendar day a timestamp in seconds falls on, counted from 1 January 1970\<close>
  "utc_day t = t div 86400"

section \<open>Chart responses and the quote store\<close>

record quote =
  cur :: num
  prev :: num

record usd_quote = quote +
  anchor1530 :: num

record chart_meta =
  regularMarketPrice :: num
  regularMarketPreviousClose :: num
  previousClose :: num
  chartPreviousClose :: num

record chart_quote =
  close :: "real option list option"

text \<open>
  A chart result \<open>raw\<close>.  \<open>meta\<close> is \<open>None\<close> when \<open>raw.meta\<close> is absent, \<open>quote0\<close> is
  \<open>None\<close> when \<open>raw.indicators.quote[0]\<close> cannot be reached; reading a property of
  either then throws.  \<open>timestamp\<close> and \<open>close\<close> are \<open>None\<close> when the field is absent.
\<close>

record chart_result =
  meta :: "chart_meta option"
  timestamp :: "int list option"
  quote0 :: "chart_quote option"

record state =
  firstLoad :: bool
  source :: string
  xau :: usd_quote
  xag :: usd_quote
  usdinr :: quote
  goldBees :: quote
  silverBees :: quote
  xauM :: quote
  xagM :: quote

definition S_init :: state where
  \<comment> \<open>the object literal \<open>S\<close>\<close>
  "S_init =
     \<lparr> firstLoad = True, source = ''tradingview'',
       xau = \<lparr> cur = Some 0, prev = Some 0, anchor1530 = Some 0 \<rparr>,
       xag = \<lparr> cur = Some 0, prev = Some 0, anchor1530 = Some 0 \<rparr>,
       usdinr = \<lparr> cur = Some 0, prev = Some 0 \<rparr>,
       goldBees = \<lparr> cur = Some 0, prev = Some 0 \<rparr>,
       silverBees = \<lparr> cur = Some 0, prev = Some 0 \<rparr>,
       xauM = \<lparr> cur = Some 0, prev = Some 0 \<rparr>,
       xagM = \<lparr> cur = Some 0, prev = Some 0 \<rparr> \<rparr>"

fun lastValid_scan :: "real option list \<Rightarrow> nat \<Rightarrow> num" where
  \<comment> \<open>the loop of \<open>lastValid\<close>, the second argument being \<open>i + 1\<close>\<close>
  "lastValid_scan arr 0 = None"
| "lastValid_scan arr (Suc i) =
     (case elem arr i of Some v \<Rightarrow> Some v | None \<Rightarrow> lastValid_scan arr i)"

definition lastValid :: "real option list option \<Rightarrow> error + num" where
  "lastValid arr =
     (case arr of None \<Rightarrow> Inl TypeError | Some a \<Rightarrow> Inr (lastValid_scan a (length a)))"

definition resolve_prev :: "chart_meta \<Rightarrow> num" where
  \<comment> \<open>\<open>raw.meta.regularMarketPreviousClose ?? raw.meta.previousClose ?? raw.meta.chartPreviousClose\<close>\<close>
  "resolve_prev m =
     nullish_or (nullish_or (regularMarketPreviousClose m) (previousClose m))
       (chartPreviousClose m)"

definition usd_obj :: "string \<Rightarrow> state \<Rightarrow> usd_quote" where
  \<comment> \<open>\<open>obj = sym === 'GC=F' ? S.xau : S.xag\<close>\<close>
  "usd_obj symbol S = (if symbol = ''GC=F'' then xau S else xag S)"

definition bees_obj :: "string \<Rightarrow> state \<Rightarrow> quote" where
  \<comment> \<open>\<open>obj = sym === 'GOLDBEES.NS' ? S.goldBees : S.silverBees\<close>\<close>
  "bees_obj symbol S = (if symbol = ''GOLDBEES.NS'' then goldBees S else silverBees S)"

definition put_usd :: "string \<Rightarrow> usd_quote \<Rightarrow> state \<Rightarrow> state" where
  \<comment> \<open>a write through \<open>obj\<close>, which is the object held in the store\<close>
  "put_usd symbol obj S = (if symbol = ''GC=F'' then S\<lparr>xau := obj\<rparr> else S\<lparr>xag := obj\<rparr>)"

definition put_bees :: "string \<Rightarrow> quote \<Rightarrow> state \<Rightarrow> state" where
  "put_bees symbol obj S =
     (if symbol = ''GOLDBEES.NS'' then S\<lparr>goldBees := obj\<rparr> else S\<lparr>silverBees := obj\<rparr>)"

text \<open>
  \<open>processUSD\<close> and \<open>processBees\<close> return the store they leave behind, together with
  the exception that cut them short, if any: what was assigned before a throw stays.
\<close>

definition processUSD :: "string \<Rightarrow> chart_result \<Rightarrow> state \<Rightarrow> error option \<times> state" where
  "processUSD symbol raw S =
     (case quote0 raw of
        None \<Rightarrow> (Some TypeError, S)
      | Some q \<Rightarrow>
          (let closes = close q; timestamps = timestamp raw in
           case meta raw of
             None \<Rightarrow> (Some TypeError, S)
           | Some m \<Rightarrow>
               (let prev_v = resolve_prev m in
                case (case regularMarketPrice m of
                        Some p \<Rightarrow> Inr (Some p)
                      | None \<Rightarrow> lastValid closes) of
                  Inl e \<Rightarrow> (Some e, S)
                | Inr cur_v \<Rightarrow>
                    (let obj = usd_obj symbol S;
                         obj1 = (if source S = ''yahoo''
                                 then obj\<lparr>cur := cur_v, prev := prev_v\<rparr> else obj)
                     in case findAnchor1530 timestamps closes of
                          Inl e \<Rightarrow> (Some e, put_usd symbol obj1 S)
                        | Inr anchor \<Rightarrow>
                            (None, put_usd symbol
                               (if truthy anchor then obj1\<lparr>anchor1530 := anchor\<rparr>
                                else if \<not> truthy (anchor1530 obj1)
                                     then obj1\<lparr>anchor1530 := prev_v\<rparr>
                                else obj1) S)))))"

definition processBees :: "string \<Rightarrow> chart_result \<Rightarrow> state \<Rightarrow> error option \<times> state" where
  "processBees symbol raw S =
     (case meta raw of
        None \<Rightarrow> (Some TypeError, S)
      | Some m \<Rightarrow>
          (let prev_v = resolve_prev m in
           case (case regularMarketPrice m of
                   Some p \<Rightarrow> Inr (Some p)
                 | None \<Rightarrow>
                     (case quote0 raw of
                        None \<Rightarrow> Inl TypeError
                      | Some q \<Rightarrow> lastValid (close q))) of
             Inl e \<Rightarrow> (Some e, S)
           | Inr cur_v \<Rightarrow>
               (let obj = bees_obj symbol S
                in (None, put_bees symbol (obj\<lparr>cur := cur_v, prev := prev_v\<rparr>) S))))"

fun first_non_null :: "num list \<Rightarrow> num" where
  \<comment> \<open>the precedence rule in the specification's words: the candidates in their fixed
      order, the first one that is not null wins\<close>
  "first_non_null [] = None"
| "first_non_null (c # cs) = (case c of None \<Rightarrow> first_non_null cs | Some v \<Rightarrow> Some v)"

section \<open>Binary64 arithmetic\<close>

text \<open>
  JavaScript arithmetic is IEEE 754 binary64 with rounding to nearest, ties to even.
  A value is a finite real, an infinity or \<open>NaN\<close>.  \<open>rnd\<close> rounds a real to the nearest
  multiple of \<open>2 powi (e - 52)\<close>, where \<open>e\<close> is the binary exponent of the real and at
  least \<open>-1022\<close>, so that subnormal results lie on the grid of \<open>2 powi (-1074)\<close>; \<open>fl\<close>
  turns a rounded result of magnitude \<open>2 ^ 1024\<close> or more into an infinity.  \<open>is_f64\<close>
  holds of the reals that are finite doubles.  A numeric literal of the source, such
  as \<open>0.88\<close>, denotes \<open>rnd\<close> of its decimal value.

  The two zeros are one value here: comparison and truthiness do not tell them apart,
  and the divisors of the code are stored numbers that a guard has found non-zero, or
  a positive constant.
\<close>

datatype f64 = Fin real | PosInf | NegInf | NaN

definition round_half_even :: "real \<Rightarrow> int" where
  "round_half_even q =
     (let f = \<lfloor>q\<rfloor>; r = q - of_int f in
      if r < 1 / 2 then f else if 1 / 2 < r then f + 1 else if even f then f else f + 1)"

definition expo :: "real \<Rightarrow> int" where
  "expo x = max \<lfloor>log 2 \<bar>x\<bar>\<rfloor> (- 1022)"

definition ulp :: "real \<Rightarrow> real" where
  "ulp x = 2 powi (expo x - 52)"

definition rnd :: "real \<Rightarrow> real" where
  "rnd x = sgn x * of_int (round_half_even (\<bar>x\<bar> / ulp x)) * ulp x"

definition fl :: "real \<Rightarrow> f64" where
  "fl x = (if 2 ^ 1024 \<le> rnd x then PosInf else if rnd x \<le> - (2 ^ 1024) then NegInf
           else Fin (rnd x))"


definition inf_of :: "real \<Rightarrow> f64" where
  "inf_of s = (if 0 < s then PosInf else if s < 0 then NegInf else NaN)"

fun f64_sgn :: "f64 \<Rightarrow> real" where
  "f64_sgn (Fin x) = sgn x"
| "f64_sgn PosInf = 1"
| "f64_sgn NegInf = - 1"
| "f64_sgn NaN = 0"

fun f64_neg :: "f64 \<Rightarrow> f64" where
  "f64_neg (Fin x) = Fin (- x)"
| "f64_neg PosInf = NegInf"
| "f64_neg NegInf = PosInf"
| "f64_neg NaN = NaN"

fun f64_add :: "f64 \<Rightarrow> f64 \<Rightarrow> f64" where
  "f64_add (Fin x) (Fin y) = fl (x + y)"
| "f64_add NaN b = NaN"
| "f64_add a NaN = NaN"
| "f64_add PosInf NegInf = NaN"
| "f64_add NegInf PosInf = NaN"
| "f64_add PosInf b = PosInf"
| "f64_add NegInf b = NegInf"
| "f64_add a PosInf = PosInf"
| "f64_add a NegInf = NegInf"

definition f64_sub :: "f64 \<Rightarrow> f64 \<Rightarrow> f64" where
  "f64_sub a b = f64_add a (f64_neg b)"

fun f64_mul :: "f64 \<Rightarrow> f64 \<Rightarrow> f64" where
  "f64_mul (Fin x) (Fin y) = fl (x * y)"
| "f64_mul NaN b = NaN"
| "f64_mul a NaN = NaN"
| "f64_mul a b = inf_of (f64_sgn a * f64_sgn b)"

fun f64_div :: "f64 \<Rightarrow> f64 \<Rightarrow> f64" where
  "f64_div (Fin x) (Fin y) = (if y = 0 then inf_of (sgn x) else fl (x / y))"
| "f64_div NaN b = NaN"
| "f64_div a NaN = NaN"
| "f64_div (Fin x) b = Fin 0"
| "f64_div a (Fin y) = inf_of (f64_sgn a * (if y < 0 then - 1 else 1))"
| "f64_div a b = NaN"

fun f64_less :: "f64 \<Rightarrow> f64 \<Rightarrow> bool" where
  "f64_less (Fin x) (Fin y) = (x < y)"
| "f64_less NaN b = False"
| "f64_less a NaN = False"
| "f64_less a NegInf = False"
| "f64_less PosInf b = False"
| "f64_less NegInf b = True"
| "f64_less a PosInf = True"




section \<open>Gap prediction\<close>

record model =
  beta :: real
  r2 :: real

definition GOLD_MODEL :: model where
  \<comment> \<open>\<open>{ beta: 0.88, r2: 0.91 }\<close>\<close>
  "GOLD_MODEL = \<lparr> beta = rnd 0.88, r2 = rnd 0.91 \<rparr>"

definition SILVER_MODEL :: model where
  \<comment> \<open>\<open>{ beta: 0.82, r2: 0.87 }\<close>\<close>
  "SILVER_MODEL = \<lparr> beta = rnd 0.82, r2 = rnd 0.87 \<rparr>"

text \<open>
  What a prediction card shows.  The texts are kept as the numbers they format:
  \<open>anchorText\<close>, \<open>nowText\<close> and \<open>pctText\<close> are the arguments of \<open>fmt\<close>, \<open>expText\<close> is
  the target that \<open>animateTo\<close> brings the expected-price element to.  \<open>None\<close> is an
  element that has not been written yet.  The anchor and the current price are stored
  numbers; the percentage and the expected price are results of binary64 arithmetic.
\<close>

record gap_card =
  anchorText :: "real option"
  nowText :: "real option"
  pctText :: "f64 option"
  pctClass :: string
  expText :: "f64 option"
  expClass :: string

definition animateTo :: "f64 option \<Rightarrow> f64 \<Rightarrow> f64 option" where
  \<comment> \<open>\<open>animateTo(el, target, dec)\<close>: returns at once on \<open>NaN\<close>, and otherwise brings the
      element to \<open>target\<close>, in one step or through an animation that ends there\<close>
  "animateTo el target = (if target = NaN then el else Some target)"

definition gap_cls :: "f64 \<Rightarrow> string" where
  \<comment> \<open>\<open>cls = x > 0 ? 'up' : x < 0 ? 'down' : ''\<close>\<close>
  "gap_cls x = (if f64_less (Fin 0) x then ''up'' else if f64_less x (Fin 0) then ''down'' else [])"

definition renderGap :: "usd_quote \<Rightarrow> quote \<Rightarrow> model \<Rightarrow> gap_card \<Rightarrow> gap_card" where
  \<comment> \<open>\<open>renderGap(usdState, beesState, expEl, anchorEl, nowEl, pctEl, model)\<close> of v3\<close>
  "renderGap usdState beesState mdl view =
     (if \<not> truthy (cur usdState) \<or> \<not> truthy (anchor1530 usdState) \<or> \<not> truthy (cur beesState)
      then view
      else
        (let overnightPct =
               f64_div (f64_sub (Fin (the (cur usdState))) (Fin (the (anchor1530 usdState))))
                 (Fin (the (anchor1530 usdState)));
             expected =
               f64_mul (Fin (the (cur beesState)))
                 (f64_add (Fin 1) (f64_mul overnightPct (Fin (beta mdl))))
         in view\<lparr> anchorText := anchor1530 usdState,
                  nowText := cur usdState,
                  pctText := Some (f64_mul overnightPct (Fin 100)),
                  pctClass := ''gap-pct '' @ gap_cls overnightPct,
                  expText := animateTo (expText view) expected \<rparr>))"

definition renderGap_v2 :: "usd_quote \<Rightarrow> quote \<Rightarrow> gap_card \<Rightarrow> gap_card" where
  \<comment> \<open>\<open>renderGap(usdState, beesState, expEl, anchorEl, nowEl, pctEl)\<close> of v2, with its
      fixed dampening and the \<open>text-up\<close>/\<open>text-down\<close> class of the expected price\<close>
  "renderGap_v2 usdState beesState view =
     (if \<not> truthy (cur usdState) \<or> \<not> truthy (anchor1530 usdState) \<or> \<not> truthy (cur beesState)
      then view
      else
        (let diffPct =
               f64_div (f64_sub (Fin (the (cur usdState))) (Fin (the (anchor1530 usdState))))
                 (Fin (the (anchor1530 usdState)));
             DAMPENING = rnd 0.92;
             expected =
               f64_mul (Fin (the (cur beesState)))
                 (f64_add (Fin 1) (f64_mul diffPct (Fin DAMPENING)))
         in view\<lparr> anchorText := anchor1530 usdState,
                  nowText := cur usdState,
                  pctText := Some (f64_mul diffPct (Fin 100)),
                  pctClass := ''gap-pct '' @ gap_cls diffPct,
                  expText := animateTo (expText view) expected,
                  expClass := (if f64_less (Fin (the (cur beesState))) expected then ''text-up''
                               else if f64_less expected (Fin (the (cur beesState)))
                                    then ''text-down''
                               else []) \<rparr>))"

section \<open>Rendering and the cache\<close>

text \<open>
  What a price card shows, again as the numbers that are formatted: \<open>priceText\<close> is
  the target of \<open>animateTo\<close> on the price element, \<open>changeText\<close> and \<open>changePctText\<close> are
  the arguments of \<open>fmt\<close> in \<open>renderChange\<close> (their sign prefix is left out),
  \<open>inrGramText\<close> is the argument of \<open>fmtInrGram\<close>; only the gold and the silver card
  have that last element.
\<close>

record price_card =
  priceText :: "f64 option"
  rowClass :: string
  caretClass :: string
  changeText :: "f64 option"
  changePctText :: "f64 option"
  inrGramText :: "f64 option"

definition GRAMS_PER_OZ :: real where
  \<comment> \<open>\<open>CFG.GRAMS_PER_OZ\<close>\<close>
  "GRAMS_PER_OZ = rnd 28.3"

definition renderChange :: "num \<Rightarrow> num \<Rightarrow> price_card \<Rightarrow> price_card" where
  \<comment> \<open>\<open>renderChange(rowEl, caretIcon, changeEl, pctEl, cur, prev, decimals)\<close>\<close>
  "renderChange cur_v prev_v el =
     (if \<not> truthy cur_v \<or> \<not> truthy prev_v then el
      else
        (let diff = f64_sub (Fin (the cur_v)) (Fin (the prev_v));
             pct = f64_mul (f64_div diff (Fin (the prev_v))) (Fin 100)
         in el\<lparr> rowClass := ''card-change '' @ gap_cls diff,
                caretClass := (if f64_less diff (Fin 0) then ''fa-solid fa-caret-down caret''
                               else ''fa-solid fa-caret-up caret''),
                changeText := Some diff,
                changePctText := Some pct \<rparr>))"

definition price_block :: "num \<Rightarrow> num \<Rightarrow> price_card \<Rightarrow> price_card" where
  \<comment> \<open>the two calls \<open>animateTo(EL.xPrice, cur, d); renderChange(.., cur, prev, d)\<close> that
      open each block of \<open>renderUI\<close>; the block runs under \<open>if (cur)\<close>\<close>
  "price_block cur_v prev_v el =
     renderChange cur_v prev_v (el\<lparr> priceText := animateTo (priceText el) (Fin (the cur_v)) \<rparr>)"

definition inr_block :: "num \<Rightarrow> num \<Rightarrow> price_card \<Rightarrow> price_card" where
  \<comment> \<open>\<open>if (S.usdinr.cur) { inrGram = (cur * S.usdinr.cur) / CFG.GRAMS_PER_OZ; .. }\<close>\<close>
  "inr_block cur_v usdinr_v el =
     (if truthy usdinr_v
      then el\<lparr> inrGramText :=
                 Some (f64_div (f64_mul (Fin (the cur_v)) (Fin (the usdinr_v))) (Fin GRAMS_PER_OZ)) \<rparr>
      else el)"

record page =
  xauCard :: price_card
  xagCard :: price_card
  usdinrCard :: price_card
  gbCard :: price_card
  sbCard :: price_card
  xaumCard :: price_card
  xagmCard :: price_card
  goldGap :: gap_card
  silverGap :: gap_card

text \<open>
  \<open>renderUI\<close> of v3: seven blocks, one per price card, each under the test of its
  current price, then the two prediction cards.  The blocks write to different
  elements.  The source labels and badges, which depend on \<open>S.source\<close> only, and the
  closing \<open>saveCache()\<close>, which copies the store to \<open>localStorage\<close> and changes neither
  the store nor the page, are left out.
\<close>

definition renderUI :: "state \<Rightarrow> page \<Rightarrow> page" where
  "renderUI S pg =
     pg\<lparr> xauCard := (if truthy (cur (xau S))
                     then inr_block (cur (xau S)) (cur (usdinr S))
                            (price_block (cur (xau S)) (prev (xau S)) (xauCard pg))
                     else xauCard pg),
         xagCard := (if truthy (cur (xag S))
                     then inr_block (cur (xag S)) (cur (usdinr S))
                            (price_block (cur (xag S)) (prev (xag S)) (xagCard pg))
                     else xagCard pg),
         usdinrCard := (if truthy (cur (usdinr S))
                        then price_block (cur (usdinr S)) (prev (usdinr S)) (usdinrCard pg)
                        else usdinrCard pg),
         gbCard := (if truthy (cur (goldBees S))
                    then price_block (cur (goldBees S)) (prev (goldBees S)) (gbCard pg)
                    else gbCard pg),
         sbCard := (if truthy (cur (silverBees S))
                    then price_block (cur (silverBees S)) (prev (silverBees S)) (sbCard pg)
                    else sbCard pg),
         xaumCard := (if truthy (cur (xauM S))
                      then price_block (cur (xauM S)) (prev (xauM S)) (xaumCard pg)
                      else xaumCard pg),
         xagmCard := (if truthy (cur (xagM S))
                      then price_block (cur (xagM S)) (prev (xagM S)) (xagmCard pg)
                      else xagmCard pg),
         goldGap := renderGap (xau S) (goldBees S) GOLD_MODEL (goldGap pg),
         silverGap := renderGap (xag S) (silverBees S) SILVER_MODEL (silverGap pg) \<rparr>"

text \<open>
  The item \<open>market_data\<close> of \<open>localStorage\<close>, once parsed: an object with some of the
  seven keys that \<open>saveCache\<close> writes, each holding an object with some of the
  properties \<open>cur\<close>, \<open>prev\<close> and \<open>anchor1530\<close>.  \<open>None\<close> is an absent key or property,
  \<open>Some None\<close> a property that is \<open>null\<close>.  \<open>Object.assign\<close> copies the properties that
  are present.
\<close>

record cached_quote =
  d_cur :: "num option"
  d_prev :: "num option"
  d_anchor1530 :: "num option"

record snapshot =
  d_xau :: "cached_quote option"
  d_xag :: "cached_quote option"
  d_usdinr :: "cached_quote option"
  d_goldBees :: "cached_quote option"
  d_silverBees :: "cached_quote option"
  d_xauM :: "cached_quote option"
  d_xagM :: "cached_quote option"

definition assign_quote :: "quote \<Rightarrow> cached_quote option \<Rightarrow> quote" where
  \<comment> \<open>\<open>Object.assign(S[k], data[k])\<close> on a record without an anchor, whose
      \<open>anchor1530\<close>, if copied, is never read\<close>
  "assign_quote obj d =
     (case d of
        None \<Rightarrow> obj
      | Some e \<Rightarrow> obj\<lparr> cur := (case d_cur e of None \<Rightarrow> cur obj | Some v \<Rightarrow> v),
                       prev := (case d_prev e of None \<Rightarrow> prev obj | Some v \<Rightarrow> v) \<rparr>)"

definition assign_usd :: "usd_quote \<Rightarrow> cached_quote option \<Rightarrow> usd_quote" where
  \<comment> \<open>\<open>Object.assign(S[k], data[k])\<close> on the gold or the silver record\<close>
  "assign_usd obj d =
     (case d of
        None \<Rightarrow> obj
      | Some e \<Rightarrow>
          obj\<lparr> cur := (case d_cur e of None \<Rightarrow> cur obj | Some v \<Rightarrow> v),
               prev := (case d_prev e of None \<Rightarrow> prev obj | Some v \<Rightarrow> v),
               anchor1530 := (case d_anchor1530 e of None \<Rightarrow> anchor1530 obj | Some v \<Rightarrow> v) \<rparr>)"

definition loadCache :: "snapshot option \<Rightarrow> state \<times> page \<Rightarrow> state \<times> page" where
  \<comment> \<open>\<open>loadCache()\<close> on the store and the page; the argument is the parsed item, \<open>None\<close>
      when there is none or it does not parse (the exception is swallowed)\<close>
  "loadCache data w =
     (case data of
        None \<Rightarrow> w
      | Some d \<Rightarrow>
          (let S = fst w;
               S1 = S\<lparr> xau := assign_usd (xau S) (d_xau d),
                       xag := assign_usd (xag S) (d_xag d),
                       usdinr := assign_quote (usdinr S) (d_usdinr d),
                       goldBees := assign_quote (goldBees S) (d_goldBees d),
                       silverBees := assign_quote (silverBees S) (d_silverBees d),
                       xauM := assign_quote (xauM S) (d_xauM d),
                       xagM := assign_quote (xagM S) (d_xagM d) \<rparr>
           in (S1\<lparr> firstLoad := False \<rparr>, renderUI (S1\<lparr> firstLoad := True \<rparr>) (snd w))))"

definition blank_card :: price_card where
  \<comment> \<open>a price card before its first rendering\<close>
  "blank_card = \<lparr> priceText = None, rowClass = [], caretClass = [], changeText = None,
                   changePctText = None, inrGramText = None \<rparr>"

definition blank_gap :: gap_card where
  "blank_gap = \<lparr> anchorText = None, nowText = None, pctText = None, pctClass = [],
                  expText = None, expClass = [] \<rparr>"

definition blank_page :: page where
  "blank_page = \<lparr> xauCard = blank_card, xagCard = blank_card, usdinrCard = blank_card,
                   gbCard = blank_card, sbCard = blank_card, xaumCard = blank_card,
                   xagmCard = blank_card, goldGap = blank_gap, silverGap = blank_gap \<rparr>"

section \<open>The exchange calendar\<close>

text \<open>
  A \<open>Date\<close> object as the code reads it, through its local calendar fields.  The
  fields are named after their getters; \<open>getMonth\<close> counts from 0.  \<open>istNow()\<close> shifts
  the clock so that these fields show Indian Standard Time; the clock itself is an
  input of the model.  Seconds and milliseconds are never compared and are left out.
\<close>

record jsdate =
  getFullYear :: int
  getMonth :: nat
  getDate :: nat
  getHours :: nat
  getMinutes :: nat

definition leap_year :: "int \<Rightarrow> bool" where
  "leap_year y = (y mod 4 = 0 \<and> (y mod 100 \<noteq> 0 \<or> y mod 400 = 0))"

definition daysInMonth :: "int \<Rightarrow> nat \<Rightarrow> nat" where
  "daysInMonth y m =
     (if m = 1 then (if leap_year y then 29 else 28)
      else if m = 3 \<or> m = 5 \<or> m = 8 \<or> m = 10 then 30 else 31)"

definition valid_date :: "jsdate \<Rightarrow> bool" where
  "valid_date d =
     (getMonth d < 12 \<and> 1 \<le> getDate d \<and> getDate d \<le> daysInMonth (getFullYear d) (getMonth d)
      \<and> getHours d < 24 \<and> getMinutes d < 60)"

definition incDate :: "jsdate \<Rightarrow> jsdate" where
  \<comment> \<open>\<open>d.setDate(d.getDate() + 1)\<close>: the next calendar day, the time of day kept\<close>
  "incDate d =
     (if getDate d < daysInMonth (getFullYear d) (getMonth d) then d\<lparr>getDate := getDate d + 1\<rparr>
      else if getMonth d < 11 then d\<lparr>getMonth := getMonth d + 1, getDate := 1\<rparr>
      else d\<lparr>getFullYear := getFullYear d + 1, getMonth := 0, getDate := 1\<rparr>)"

definition setHours0 :: "jsdate \<Rightarrow> jsdate" where
  \<comment> \<open>\<open>d.setHours(0, 0, 0, 0)\<close>\<close>
  "setHours0 d = d\<lparr>getHours := 0, getMinutes := 0\<rparr>"

definition DayFromYear :: "int \<Rightarrow> int" where
  \<comment> \<open>ECMAScript: the day number of the first day of year \<open>y\<close>, counted from 1 January 1970\<close>
  "DayFromYear y =
     365 * (y - 1970) + (y - 1969) div 4 - (y - 1901) div 100 + (y - 1601) div 400"

definition daysBeforeMonth :: "int \<Rightarrow> nat \<Rightarrow> int" where
  "daysBeforeMonth y m =
     [0, 31, 59, 90, 120, 151, 181, 212, 243, 273, 304, 334] ! m
       + (if leap_year y \<and> 2 \<le> m then 1 else 0)"

definition dayNumber :: "jsdate \<Rightarrow> int" where
  \<comment> \<open>ECMAScript \<open>Day(t)\<close> of the calendar day shown by the fields\<close>
  "dayNumber d =
     DayFromYear (getFullYear d) + daysBeforeMonth (getFullYear d) (getMonth d)
       + (int (getDate d) - 1)"

definition getDay :: "jsdate \<Rightarrow> nat" where
  \<comment> \<open>ECMAScript \<open>WeekDay(t) = (Day(t) + 4) mod 7\<close>, 0 for Sunday\<close>
  "getDay d = nat ((dayNumber d + 4) mod 7)"

definition digit_char :: "nat \<Rightarrow> char" where
  "digit_char n = ''0123456789'' ! n"

fun showNat :: "nat \<Rightarrow> string" where
  \<comment> \<open>\<open>String(n)\<close> for a natural number\<close>
  "showNat n = (if n < 10 then [digit_char n] else showNat (n div 10) @ [digit_char (n mod 10)])"

declare showNat.simps [simp del]

definition showInt :: "int \<Rightarrow> string" where
  "showInt i = (if i < 0 then ''-'' @ showNat (nat (- i)) else showNat (nat i))"

definition padStart2 :: "string \<Rightarrow> string" where
  \<comment> \<open>\<open>s.padStart(2, '0')\<close>\<close>
  "padStart2 s = replicate (2 - length s) CHR ''0'' @ s"

definition toISTDateString :: "jsdate \<Rightarrow> string" where
  "toISTDateString d =
     showInt (getFullYear d) @ ''-'' @ padStart2 (showNat (getMonth d + 1))
       @ ''-'' @ padStart2 (showNat (getDate d))"

definition NSE_HOLIDAYS :: "string list" where
  "NSE_HOLIDAYS =
     [''2025-02-26'', ''2025-03-14'', ''2025-03-31'', ''2025-04-10'', ''2025-04-14'',
      ''2025-04-18'', ''2025-05-01'', ''2025-08-15'', ''2025-08-27'', ''2025-10-02'',
      ''2025-10-21'', ''2025-10-22'', ''2025-11-05'', ''2025-12-25'',
      ''2026-01-26'', ''2026-03-03'', ''2026-03-26'', ''2026-03-31'', ''2026-04-03'',
      ''2026-04-14'', ''2026-05-01'', ''2026-05-28'', ''2026-06-26'', ''2026-09-14'',
      ''2026-10-02'', ''2026-10-20'', ''2026-11-09'', ''2026-11-24'', ''2026-12-25'']"

definition isNseHoliday :: "jsdate \<Rightarrow> bool" where
  "isNseHoliday istDate = (toISTDateString istDate \<in> set NSE_HOLIDAYS)"

definition is_trading_day :: "jsdate \<Rightarrow> bool" where
  \<comment> \<open>the loop's test: a weekday that is not in the holiday table\<close>
  "is_trading_day d = (1 \<le> getDay d \<and> getDay d \<le> 5 \<and> \<not> isNseHoliday d)"

fun next_nse_loop :: "nat \<Rightarrow> jsdate \<Rightarrow> jsdate" where
  \<comment> \<open>the loop \<open>for (i = 0; i < 14; i++)\<close> of \<open>getNextNseDay\<close> with the fallback after it;
      the first argument counts the rounds that are left\<close>
  "next_nse_loop 0 candidate = candidate"
| "next_nse_loop (Suc n) candidate =
     (let dow = getDay candidate in
      if dow \<ge> 1 \<and> dow \<le> 5 \<and> \<not> isNseHoliday candidate then candidate
      else next_nse_loop n (incDate candidate))"

definition getNextNseDay :: "jsdate \<Rightarrow> jsdate" where
  \<comment> \<open>the argument is the value of \<open>istNow()\<close> read by the function\<close>
  "getNextNseDay now = next_nse_loop 14 (setHours0 (incDate now))"

definition isTomorrowNseOpen :: "jsdate \<Rightarrow> jsdate \<Rightarrow> bool" where
  \<comment> \<open>\<open>now\<close> is the clock read by the function, \<open>now'\<close> the one read by its call of
      \<open>getNextNseDay\<close>\<close>
  "isTomorrowNseOpen now now' =
     (let tomorrow = setHours0 (incDate now); nextNse = getNextNseDay now' in
      getDate nextNse = getDate tomorrow \<and> getMonth nextNse = getMonth tomorrow
        \<and> getFullYear nextNse = getFullYear tomorrow)"

section \<open>Gating of the prediction section\<close>

text \<open>
  The banner's \<open>innerHTML\<close>, by the template it is built from and the values put in it.
\<close>

datatype banner_html =
    ClosedToday jsdate
  | UnlocksIn nat nat
  | ClosedTomorrow jsdate

text \<open>
  The part of the page \<open>updatePredictionSection\<close> writes.  \<open>elsPresent\<close>: the banner and
  the cards were found in the document; \<open>labelPresent\<close>: so was the section label.
\<close>

record pred_ui =
  elsPresent :: bool
  labelPresent :: bool
  sectionLabel :: "jsdate option"
  bannerClass :: string
  bannerHTML :: "banner_html option"
  bannerDisplay :: string
  cardsDisplay :: string
  priceWrapDisplay :: string

definition updatePredictionSection ::
    "jsdate \<Rightarrow> jsdate \<Rightarrow> jsdate \<Rightarrow> jsdate \<Rightarrow> pred_ui \<Rightarrow> pred_ui" where
  \<comment> \<open>\<open>ist\<close> is the argument; \<open>now1\<close>, \<open>now2\<close>, \<open>now3\<close> are the clock as read by
      \<open>getNextNseDay\<close>, by \<open>isTomorrowNseOpen\<close> and by the latter's \<open>getNextNseDay\<close>\<close>
  "updatePredictionSection ist now1 now2 now3 ui =
     (if \<not> elsPresent ui then ui
      else
        (let minute = getHours ist * 60 + getMinutes ist;
             dow = getDay ist;
             isWeekday = (dow \<ge> 1 \<and> dow \<le> 5);
             isHoliday = isNseHoliday ist;
             nextNseDay = getNextNseDay now1;
             ui1 = (if labelPresent ui then ui\<lparr>sectionLabel := Some nextNseDay\<rparr> else ui);
             afterCloseOnWeekday = (isWeekday \<and> \<not> isHoliday \<and> minute \<ge> 930)
         in if \<not> afterCloseOnWeekday
            then ui1\<lparr> bannerClass := ''prediction-banner banner-locked'',
                      bannerHTML := Some (if \<not> isWeekday \<or> isHoliday then ClosedToday nextNseDay
                                          else UnlocksIn ((930 - minute) div 60) ((930 - minute) mod 60)),
                      bannerDisplay := ''flex'',
                      cardsDisplay := ''none'' \<rparr>
            else if \<not> isTomorrowNseOpen now2 now3
            then ui1\<lparr> bannerClass := ''prediction-banner banner-closed'',
                      bannerHTML := Some (ClosedTomorrow nextNseDay),
                      bannerDisplay := ''flex'',
                      cardsDisplay := ''grid'',
                      priceWrapDisplay := ''none'' \<rparr>
            else ui1\<lparr> bannerDisplay := ''none'',
                      cardsDisplay := ''grid'',
                      priceWrapDisplay := [] \<rparr>))"

section \<open>Reading date keys back\<close>

text \<open>
  The holiday table is keyed by strings.  To reason about it the keys are read back
  into numbers; \<open>parse_date\<close> takes a key \<open>YYYY-MM-DD\<close> apart, \<open>ymd\<close> gives the same
  three numbers for a date, and \<open>at_midnight\<close> is the date with these fields.
\<close>

definition digit_val :: "char \<Rightarrow> nat" where
  \<comment> \<open>the value of a decimal digit, from its character code\<close>
  "digit_val c = of_char c - 48"

definition parse_nat :: "string \<Rightarrow> nat" where
  "parse_nat s = foldl (\<lambda>acc c. 10 * acc + digit_val c) 0 s"

definition parse_date :: "string \<Rightarrow> int \<times> nat \<times> nat" where
  "parse_date h =
     (int (parse_nat (take 4 h)), parse_nat (take 2 (drop 5 h)), parse_nat (drop 8 h))"

definition ymd :: "jsdate \<Rightarrow> int \<times> nat \<times> nat" where
  "ymd d = (getFullYear d, getMonth d + 1, getDate d)"

definition at_midnight :: "int \<times> nat \<times> nat \<Rightarrow> jsdate" where
  "at_midnight t = (case t of (y, m1, dd) \<Rightarrow>
     \<lparr>getFullYear = y, getMonth = m1 - 1, getDate = dd, getHours = 0, getMinutes = 0\<rparr>)"

section \<open>Lemmas: the anchor scan\<close>

lemma anchor_scan_none:
  "(\<forall>i<n. \<forall>d. sample_diff ts cs i = Some d \<longrightarrow> 5 < d \<and> minDiff \<le> d) \<Longrightarrow>
   anchor_scan ts cs n best minDiff = (case best of None \<Rightarrow> None | Some b \<Rightarrow> elem cs b)"
proof (induction n arbitrary: best minDiff)
  case 0
  show ?case by simp
next
  case (Suc n)
  have rest: "\<forall>i<n. \<forall>d. sample_diff ts cs i = Some d \<longrightarrow> 5 < d \<and> minDiff \<le> d"
    using Suc.prems by (simp add: less_Suc_eq)
  have here: "\<forall>d. sample_diff ts cs n = Some d \<longrightarrow> 5 < d \<and> minDiff \<le> d"
    using Suc.prems by (simp add: less_Suc_eq)
  show ?case
  proof (cases "sample_diff ts cs n")
    case None
    then show ?thesis using Suc.IH [OF rest]
      by (auto simp: sample_diff_def split: option.splits)
  next
    case (Some d)
    then have "5 < d" "minDiff \<le> d" using here by auto
    then show ?thesis using Some Suc.IH [OF rest]
      by (auto simp: sample_diff_def Let_def split: option.splits)
  qed
qed

lemma anchor_scan_exact:
  "i < n \<Longrightarrow> within_tolerance ts cs i \<Longrightarrow> (\<forall>j<n. i < j \<longrightarrow> \<not> within_tolerance ts cs j) \<Longrightarrow>
   anchor_scan ts cs n best minDiff = elem cs i"
proof (induction n arbitrary: best minDiff)
  case 0
  then show ?case by simp
next
  case (Suc n)
  show ?case
  proof (cases "i = n")
    case True
    then show ?thesis using Suc.prems(2)
      by (auto simp: within_tolerance_def sample_diff_def Let_def split: option.splits)
  next
    case False
    then have lt: "i < n" using Suc.prems(1) by simp
    have later: "\<forall>j<n. i < j \<longrightarrow> \<not> within_tolerance ts cs j" using Suc.prems(3) by (simp add: less_Suc_eq)
    have notn: "\<not> within_tolerance ts cs n" using Suc.prems(3) lt by simp
    have ih: "\<And>best minDiff. anchor_scan ts cs n best minDiff = elem cs i"
      using Suc.IH [OF lt Suc.prems(2) later] .
    show ?thesis using notn
      by (auto simp: ih within_tolerance_def sample_diff_def Let_def split: option.splits)
  qed
qed

lemma ex_last:
  fixes P :: "nat \<Rightarrow> bool"
  shows "\<exists>k<n. P k \<Longrightarrow> \<exists>i<n. P i \<and> (\<forall>j<n. i < j \<longrightarrow> \<not> P j)"
proof (induction n)
  case 0
  then show ?case by simp
next
  case (Suc n)
  show ?case
  proof (cases "P n")
    case True
    then show ?thesis by (intro exI [of _ n]) auto
  next
    case False
    then have "\<exists>k<n. P k" using Suc.prems by (auto simp: less_Suc_eq)
    then obtain i where "i < n" "P i" "\<forall>j<n. i < j \<longrightarrow> \<not> P j" using Suc.IH by blast
    then show ?thesis using False by (intro exI [of _ i]) (auto simp: less_Suc_eq)
  qed
qed

section \<open>Lemmas: decimal strings\<close>

lemma digit_range:
  "(n::nat) < 10 \<Longrightarrow> n \<in> {0, 1, 2, 3, 4, 5, 6, 7, 8, 9}"
  by (simp add: numeral_eq_Suc less_Suc_eq) blast?

lemma digit_val_char: "n < 10 \<Longrightarrow> digit_val (digit_char n) = n"
  by (drule digit_range) (auto simp: digit_val_def digit_char_def)

lemma digit_char_not_minus: "n < 10 \<Longrightarrow> digit_char n \<noteq> CHR ''-''"
  by (drule digit_range) (auto simp: digit_char_def)

lemma parse_nat_snoc: "parse_nat (s @ [c]) = 10 * parse_nat s + digit_val c"
  by (simp add: parse_nat_def)

lemma parse_showNat: "parse_nat (showNat n) = n"
proof (induction n rule: showNat.induct)
  case (1 n)
  show ?case
  proof (cases "n < 10")
    case True
    then show ?thesis
      by (subst showNat.simps) (simp add: parse_nat_def digit_val_char)
  next
    case False
    then have ih: "parse_nat (showNat (n div 10)) = n div 10" using 1 by simp
    have "showNat n = showNat (n div 10) @ [digit_char (n mod 10)]"
      using False by (subst showNat.simps) simp
    then show ?thesis by (simp add: parse_nat_snoc ih digit_val_char)
  qed
qed

lemma showNat_hd: "showNat n \<noteq> [] \<and> hd (showNat n) \<noteq> CHR ''-''"
proof (induction n rule: showNat.induct)
  case (1 n)
  show ?case
  proof (cases "n < 10")
    case True
    then show ?thesis
      by (subst (1 2) showNat.simps) (simp add: digit_char_not_minus)
  next
    case False
    then have ih: "showNat (n div 10) \<noteq> [] \<and> hd (showNat (n div 10)) \<noteq> CHR ''-''"
      using 1 by simp
    have "showNat n = showNat (n div 10) @ [digit_char (n mod 10)]"
      using False by (subst showNat.simps) simp
    then show ?thesis using ih by simp
  qed
qed

lemma length_showNat_small: "n < 100 \<Longrightarrow> length (padStart2 (showNat n)) = 2"
proof -
  assume n: "n < 100"
  show ?thesis
  proof (cases "n < 10")
    case True
    then show ?thesis by (subst showNat.simps) (simp add: padStart2_def)
  next
    case False
    then have "n div 10 < 10" using n by simp
    then have "showNat (n div 10) = [digit_char (n div 10)]" by (subst showNat.simps) simp
    moreover have "showNat n = showNat (n div 10) @ [digit_char (n mod 10)]"
      using False by (subst showNat.simps) simp
    ultimately show ?thesis by (simp add: padStart2_def)
  qed
qed

lemma parse_nat_zeros: "parse_nat (replicate k CHR ''0'' @ s) = parse_nat s"
  by (induction k) (simp_all add: parse_nat_def digit_val_def)

lemma parse_padStart2: "parse_nat (padStart2 (showNat n)) = n"
  by (simp add: padStart2_def parse_nat_zeros parse_showNat)

lemma date_string_fields:
  assumes v: "valid_date d" and eq: "toISTDateString d = h"
      and len: "length h = 10" and nm: "hd h \<noteq> CHR ''-''"
  shows "getFullYear d = int (parse_nat (take 4 h)) \<and>
         getMonth d + 1 = parse_nat (take 2 (drop 5 h)) \<and>
         getDate d = parse_nat (drop 8 h)"
proof -
  define Y where "Y = showInt (getFullYear d)"
  define M where "M = padStart2 (showNat (getMonth d + 1))"
  define D where "D = padStart2 (showNat (getDate d))"
  have dim: "daysInMonth (getFullYear d) (getMonth d) \<le> 31" by (simp add: daysInMonth_def)
  have lM: "length M = 2" unfolding M_def using v
    by (intro length_showNat_small) (simp add: valid_date_def)
  have lD: "length D = 2" unfolding D_def using v dim
    by (intro length_showNat_small) (simp add: valid_date_def)
  have h: "h = Y @ ''-'' @ M @ ''-'' @ D"
    using eq by (simp add: toISTDateString_def Y_def M_def D_def)
  have lY: "length Y = 4" using len lM lD by (simp add: h)
  have tY: "take 4 h = Y" using lY by (simp add: h)
  have tM: "take 2 (drop 5 h) = M" using lY lM by (simp add: h)
  have tD: "drop 8 h = D" using lY lM lD by (simp add: h)
  have "hd h = hd Y" using lY by (cases Y) (simp_all add: h)
  then have "hd Y \<noteq> CHR ''-''" using nm by simp
  then have nonneg: "\<not> getFullYear d < 0" by (auto simp: Y_def showInt_def)
  then have "Y = showNat (nat (getFullYear d))" by (simp add: Y_def showInt_def)
  then have "parse_nat Y = nat (getFullYear d)" by (simp add: parse_showNat)
  then have y: "getFullYear d = int (parse_nat Y)" using nonneg by simp
  have m: "parse_nat M = getMonth d + 1" by (simp add: M_def parse_padStart2)
  have dd: "parse_nat D = getDate d" by (simp add: D_def parse_padStart2)
  show ?thesis by (simp add: tY tM tD y [symmetric] m dd)
qed

section \<open>Lemmas: calendar arithmetic\<close>

lemma div_step:
  fixes a k :: int
  assumes "0 < k"
  shows "(a + 1) div k = a div k + (if (a + 1) mod k = 0 then 1 else 0)"
proof -
  define q where "q = a div k"
  define r where "r = a mod k"
  have e: "a = k * q + r" unfolding q_def r_def by (rule mult_div_mod_eq [symmetric])
  have r: "0 \<le> r" "r < k" using assms by (simp_all add: r_def)
  show ?thesis
  proof (cases "r = k - 1")
    case True
    have s: "a + 1 = k * (q + 1) + 0" unfolding e True by (simp add: distrib_left)
    have "(a + 1) div k = q + 1"
      using assms s by (intro int_div_pos_eq [where r = 0]) simp_all
    moreover have "(a + 1) mod k = 0"
      using assms s by (intro int_mod_pos_eq [where q = "q + 1"]) simp_all
    ultimately show ?thesis by (simp add: q_def)
  next
    case False
    have s: "a + 1 = k * q + (r + 1)" unfolding e by simp
    have "(a + 1) div k = q"
      using r False s by (intro int_div_pos_eq [where r = "r + 1"]) simp_all
    moreover have "(a + 1) mod k = r + 1"
      using r False s by (intro int_mod_pos_eq [where q = q]) simp_all
    ultimately show ?thesis using r by (simp add: q_def)
  qed
qed

lemma mod_shift: "((y::int) - c * k) mod k = y mod k"
  by (metis mod_mult_self4 diff_conv_add_uminus mult_minus_left mult.commute add.commute)

lemma mod_coarse: "(k::int) dvd n \<Longrightarrow> y mod n = 0 \<Longrightarrow> y mod k = 0"
  by (meson dvd_trans mod_0_imp_dvd dvd_imp_mod_0)

lemma DayFromYear_next:
  "DayFromYear (y + 1) = DayFromYear y + (if leap_year y then 366 else 365)"
proof -
  define p4 where "p4 = (y mod 4 = 0)"
  define p100 where "p100 = (y mod 100 = 0)"
  define p400 where "p400 = (y mod 400 = 0)"
  define A where "A = (y - 1969) div 4"
  define B where "B = (y - 1901) div 100"
  define C where "C = (y - 1601) div 400"
  have s4: "y + 1 - 1969 = (y - 1969) + 1" "y - 1969 + 1 = y - 492 * 4" by simp_all
  have s100: "y + 1 - 1901 = (y - 1901) + 1" "y - 1901 + 1 = y - 19 * 100" by simp_all
  have s400: "y + 1 - 1601 = (y - 1601) + 1" "y - 1601 + 1 = y - 4 * 400" by simp_all
  have a: "(y + 1 - 1969) div 4 = A + (if p4 then 1 else 0)"
    unfolding s4(1) A_def p4_def using div_step [of 4 "y - 1969"]
    by (simp only: s4(2) mod_shift)
  have b: "(y + 1 - 1901) div 100 = B + (if p100 then 1 else 0)"
    unfolding s100(1) B_def p100_def using div_step [of 100 "y - 1901"]
    by (simp only: s100(2) mod_shift)
  have c: "(y + 1 - 1601) div 400 = C + (if p400 then 1 else 0)"
    unfolding s400(1) C_def p400_def using div_step [of 400 "y - 1601"]
    by (simp only: s400(2) mod_shift)
  have i1: "p400 \<longrightarrow> p100"
    unfolding p400_def p100_def using mod_coarse [of 100 400 y] by simp
  have i2: "p100 \<longrightarrow> p4"
    unfolding p100_def p4_def using mod_coarse [of 4 100 y] by simp
  have lp: "leap_year y = (p4 \<and> (\<not> p100 \<or> p400))"
    by (simp add: leap_year_def p4_def p100_def p400_def)
  have lhs: "DayFromYear (y + 1) =
      365 * (y - 1970) + 365 + (A + (if p4 then 1 else 0))
        - (B + (if p100 then 1 else 0)) + (C + (if p400 then 1 else 0))"
    unfolding DayFromYear_def a b c by simp
  have rhs: "DayFromYear y = 365 * (y - 1970) + A - B + C"
    unfolding DayFromYear_def A_def B_def C_def by simp
  show ?thesis unfolding lhs rhs lp using i1 i2
    by (cases p4; cases p100; cases p400) simp_all
qed

lemma month_disj:
  "(m::nat) < 12 \<Longrightarrow> m = 0 \<or> m = 1 \<or> m = 2 \<or> m = 3 \<or> m = 4 \<or> m = 5
        \<or> m = 6 \<or> m = 7 \<or> m = 8 \<or> m = 9 \<or> m = 10 \<or> m = 11"
  by (simp add: numeral_eq_Suc less_Suc_eq) blast?

lemma dayNumber_incDate:
  assumes "valid_date d"
  shows "dayNumber (incDate d) = dayNumber d + 1"
proof -
  have m: "getMonth d < 12" using assms by (simp add: valid_date_def)
  show ?thesis
  proof (cases "getDate d < daysInMonth (getFullYear d) (getMonth d)")
    case True
    then show ?thesis by (simp add: incDate_def dayNumber_def)
  next
    case False
    then have last: "getDate d = daysInMonth (getFullYear d) (getMonth d)"
      using assms by (simp add: valid_date_def)
    show ?thesis
    proof (cases "getMonth d < 11")
      case True
      have "getMonth d = 0 \<or> getMonth d = 1 \<or> getMonth d = 2 \<or> getMonth d = 3
            \<or> getMonth d = 4 \<or> getMonth d = 5 \<or> getMonth d = 6 \<or> getMonth d = 7
            \<or> getMonth d = 8 \<or> getMonth d = 9 \<or> getMonth d = 10"
        using month_disj [OF m] True by simp
      then show ?thesis using last
        by (elim disjE)
           (simp_all add: incDate_def dayNumber_def daysBeforeMonth_def daysInMonth_def)
    next
      case False
      then have "getMonth d = 11" using m by simp
      then show ?thesis using last
        by (simp add: incDate_def dayNumber_def daysBeforeMonth_def daysInMonth_def
              DayFromYear_next)
    qed
  qed
qed

lemma valid_incDate:
  assumes "valid_date d"
  shows "valid_date (incDate d)"
proof -
  have pos: "\<And>y m. 1 \<le> daysInMonth y m" by (simp add: daysInMonth_def)
  show ?thesis using assms pos [of "getFullYear d" "getMonth d + 1"] pos [of "getFullYear d + 1" 0]
    by (auto simp: valid_date_def incDate_def)
qed

section \<open>Lemmas: the holiday table and the walk to the next trading day\<close>

lemma setHours0_simps:
  "getDay (setHours0 d) = getDay d"
  "dayNumber (setHours0 d) = dayNumber d"
  "isNseHoliday (setHours0 d) = isNseHoliday d"
  "is_trading_day (setHours0 d) = is_trading_day d"
  "incDate (setHours0 d) = setHours0 (incDate d)"
  "ymd (setHours0 d) = ymd d"
  by (simp_all add: setHours0_def getDay_def dayNumber_def isNseHoliday_def is_trading_day_def
        toISTDateString_def incDate_def ymd_def)

lemma valid_setHours0: "valid_date d \<Longrightarrow> valid_date (setHours0 d)"
  by (simp add: setHours0_def valid_date_def)

lemma holiday_table_shape:
  "\<forall>h\<in>set NSE_HOLIDAYS. length h = 10 \<and> hd h \<noteq> CHR ''-''"
  by (simp add: NSE_HOLIDAYS_def)

lemma holiday_ymd:
  assumes "valid_date d" and "isNseHoliday d"
  shows "ymd d \<in> set (map parse_date NSE_HOLIDAYS)"
proof -
  define h where "h = toISTDateString d"
  have mem: "h \<in> set NSE_HOLIDAYS" using assms(2) by (simp add: isNseHoliday_def h_def)
  then have shape: "length h = 10" "hd h \<noteq> CHR ''-''" using holiday_table_shape by blast+
  have "ymd d = parse_date h"
    using date_string_fields [OF assms(1) _ shape] by (simp add: h_def ymd_def parse_date_def)
  then show ?thesis using mem by simp
qed

lemma holiday_dates:
  "map parse_date NSE_HOLIDAYS =
       [(2025, 2, 26), (2025, 3, 14), (2025, 3, 31), (2025, 4, 10), (2025, 4, 14),
        (2025, 4, 18), (2025, 5, 1), (2025, 8, 15), (2025, 8, 27), (2025, 10, 2),
        (2025, 10, 21), (2025, 10, 22), (2025, 11, 5), (2025, 12, 25),
        (2026, 1, 26), (2026, 3, 3), (2026, 3, 26), (2026, 3, 31), (2026, 4, 3),
        (2026, 4, 14), (2026, 5, 1), (2026, 5, 28), (2026, 6, 26), (2026, 9, 14),
        (2026, 10, 2), (2026, 10, 20), (2026, 11, 9), (2026, 11, 24), (2026, 12, 25)]"
  by (simp add: NSE_HOLIDAYS_def parse_date_def parse_nat_def digit_val_def)

lemma monday_table:
  "\<forall>t \<in> set (map parse_date NSE_HOLIDAYS).
      getDay (at_midnight t) \<noteq> 1 \<or>
      ymd (incDate (at_midnight t)) \<notin> set (map parse_date NSE_HOLIDAYS)"
  unfolding holiday_dates
  apply (simp only: list.set ball_simps)
  apply (simp add: at_midnight_def getDay_def dayNumber_def DayFromYear_def daysBeforeMonth_def
        leap_year_def incDate_def daysInMonth_def ymd_def)
  done

lemma at_midnight_ymd: "at_midnight (ymd d) = setHours0 d"
  by (simp add: at_midnight_def ymd_def setHours0_def)

lemma getDay_incDate:
  assumes "valid_date d"
  shows "getDay (incDate d) = (getDay d + 1) mod 7"
proof -
  have "(dayNumber d + 1 + 4) mod 7 = ((dayNumber d + 4) mod 7 + 1) mod 7"
    by (simp add: mod_simps)
  then show ?thesis
    by (simp add: getDay_def dayNumber_incDate [OF assms] nat_mod_distrib nat_add_distrib)
qed

lemma monday_holiday_next:
  assumes v: "valid_date d" and h: "isNseHoliday d" and m: "getDay d = 1"
  shows "is_trading_day (incDate d)"
proof -
  have t: "ymd d \<in> set (map parse_date NSE_HOLIDAYS)" using v h by (rule holiday_ymd)
  have "getDay (at_midnight (ymd d)) = 1" using m by (simp add: at_midnight_ymd setHours0_simps)
  then have "ymd (incDate (at_midnight (ymd d))) \<notin> set (map parse_date NSE_HOLIDAYS)"
    using monday_table t by blast
  then have "ymd (incDate d) \<notin> set (map parse_date NSE_HOLIDAYS)"
    by (simp add: at_midnight_ymd setHours0_simps)
  then have "\<not> isNseHoliday (incDate d)"
    using holiday_ymd [OF valid_incDate [OF v]] by blast
  moreover have "getDay (incDate d) = 2" using m by (simp add: getDay_incDate [OF v])
  ultimately show ?thesis by (simp add: is_trading_day_def)
qed

lemma funpow_incDate:
  assumes "valid_date c"
  shows "valid_date ((incDate ^^ j) c) \<and> dayNumber ((incDate ^^ j) c) = dayNumber c + int j"
proof (induction j)
  case 0
  show ?case using assms by simp
next
  case (Suc j)
  then show ?case by (simp add: valid_incDate dayNumber_incDate)
qed

lemma monday_within_week:
  assumes "valid_date c"
  shows "\<exists>j<7. getDay ((incDate ^^ j) c) = 1"
proof -
  define D where "D = dayNumber c"
  define j where "j = nat ((- 3 - D) mod 7)"
  have j7: "j < 7" by (simp add: j_def nat_less_iff)
  have "int j = (- 3 - D) mod 7" by (simp add: j_def)
  moreover have "(D + (- 3 - D) mod 7 + 4) mod 7 = 1" by presburger
  ultimately have "(D + int j + 4) mod 7 = 1" by simp
  then have "getDay ((incDate ^^ j) c) = 1"
    using funpow_incDate [OF assms, of j] by (simp add: getDay_def D_def)
  then show ?thesis using j7 by blast
qed

lemma trading_day_within_fortnight:
  assumes "valid_date c"
  shows "\<exists>k<14. is_trading_day ((incDate ^^ k) c)"
proof -
  obtain j where j: "j < 7" "getDay ((incDate ^^ j) c) = 1"
    using monday_within_week [OF assms] by blast
  have v: "valid_date ((incDate ^^ j) c)" using funpow_incDate [OF assms] by blast
  show ?thesis
  proof (cases "isNseHoliday ((incDate ^^ j) c)")
    case False
    then have "is_trading_day ((incDate ^^ j) c)" using j(2) by (simp add: is_trading_day_def)
    then show ?thesis using j(1) by (intro exI [of _ j]) simp
  next
    case True
    then have "is_trading_day ((incDate ^^ Suc j) c)"
      using monday_holiday_next [OF v True j(2)] by simp
    then show ?thesis using j(1) by (intro exI [of _ "Suc j"]) simp
  qed
qed

lemma next_nse_loop_Suc:
  "next_nse_loop (Suc n) c = (if is_trading_day c then c else next_nse_loop n (incDate c))"
  by (simp add: is_trading_day_def Let_def)

lemma next_nse_loop_first:
  assumes "k < n" and "is_trading_day ((incDate ^^ k) c)"
      and "\<forall>j<k. \<not> is_trading_day ((incDate ^^ j) c)"
  shows "next_nse_loop n c = (incDate ^^ k) c"
  using assms
proof (induction n arbitrary: c k)
  case 0
  then show ?case by simp
next
  case (Suc n)
  show ?case
  proof (cases k)
    case 0
    then show ?thesis using Suc.prems(2) by (simp add: next_nse_loop_Suc del: next_nse_loop.simps)
  next
    case (Suc k')
    then have nt: "\<not> is_trading_day c" using Suc.prems(3) by auto
    have a: "k' < n" using Suc.prems(1) Suc by simp
    have b: "is_trading_day ((incDate ^^ k') (incDate c))"
      using Suc.prems(2) Suc by (simp add: funpow_swap1)
    have c: "\<forall>j<k'. \<not> is_trading_day ((incDate ^^ j) (incDate c))"
    proof (intro allI impI)
      fix j assume "j < k'"
      then have "Suc j < k" using Suc by simp
      then have "\<not> is_trading_day ((incDate ^^ Suc j) c)" using Suc.prems(3) by blast
      then show "\<not> is_trading_day ((incDate ^^ j) (incDate c))" by (simp add: funpow_swap1)
    qed
    have "next_nse_loop n (incDate c) = (incDate ^^ k') (incDate c)"
      using Suc.IH [OF a b c] .
    then show ?thesis using nt Suc by (simp add: next_nse_loop_Suc funpow_swap1 del: next_nse_loop.simps)
  qed
qed

lemma getDay_funpow:
  assumes "valid_date d"
  shows "getDay ((incDate ^^ j) d) = (getDay d + j) mod 7"
proof (induction j)
  case 0
  show ?case by (simp add: getDay_def nat_less_iff)
next
  case (Suc j)
  have v: "valid_date ((incDate ^^ j) d)" using funpow_incDate [OF assms] by blast
  show ?case by (simp add: getDay_incDate [OF v] Suc mod_simps)
qed

lemma dayNumber_ymd: "ymd a = ymd b \<Longrightarrow> dayNumber a = dayNumber b"
  by (simp add: ymd_def dayNumber_def)

section \<open>Lemmas: truthiness\<close>

lemma truthy_Some: "truthy (Some x) = (x \<noteq> 0)"
  by (simp add: truthy_def)

lemma falsy_iff: "(\<not> truthy v) = (v = None \<or> v = Some 0)"
  by (cases v) (simp_all add: truthy_def)

section \<open>Lemmas: binary64 rounding\<close>

lemma rhe_bounds: "\<lfloor>q\<rfloor> \<le> round_half_even q \<and> round_half_even q \<le> \<lfloor>q\<rfloor> + 1"
  by (simp add: round_half_even_def Let_def)

lemma rhe_of_int: "round_half_even (of_int n) = n"
  by (simp add: round_half_even_def Let_def)

lemma rhe_mono:
  assumes "q \<le> q'"
  shows "round_half_even q \<le> round_half_even q'"
proof (cases "\<lfloor>q\<rfloor> = \<lfloor>q'\<rfloor>")
  case True
  then show ?thesis using assms
    by (auto simp: round_half_even_def Let_def)
next
  case False
  then have "\<lfloor>q\<rfloor> < \<lfloor>q'\<rfloor>" using floor_mono [OF assms] by simp
  then have "\<lfloor>q\<rfloor> + 1 \<le> \<lfloor>q'\<rfloor>" by simp
  then show ?thesis using rhe_bounds [of q] rhe_bounds [of q'] by linarith
qed

lemma rhe_near: "\<bar>q - of_int n\<bar> < 1 / 2 \<Longrightarrow> round_half_even q = n"
proof -
  assume a: "\<bar>q - of_int n\<bar> < 1 / 2"
  have "\<lfloor>q\<rfloor> = n \<or> \<lfloor>q\<rfloor> = n - 1"
  proof -
    have "real_of_int n - 1 \<le> q" "q < real_of_int n + 1" using a by linarith+
    then have "n - 1 \<le> \<lfloor>q\<rfloor>" "\<lfloor>q\<rfloor> < n + 1"
      unfolding le_floor_iff floor_less_iff by simp_all
    then show ?thesis by linarith
  qed
  then show ?thesis using a
    by (auto simp: round_half_even_def Let_def abs_less_iff)
qed

lemma pow2: "(2::real) powr real_of_int k = 2 powi k"
  by (simp add: powr_real_of_int power_int_def inverse_eq_divide power_one_over)

lemma pow2_pos: "(0::real) < 2 powi k"
  by (simp add: power_int_def)

lemma pow2_mono: "a \<le> b \<Longrightarrow> (2::real) powi a \<le> 2 powi b"
  by (rule power_int_increasing) simp_all





lemma ulp_pos: "0 < ulp x"
  by (simp add: ulp_def pow2_pos)


lemma floor_log2:
  assumes "0 < x"
  shows "2 powi \<lfloor>log 2 x\<rfloor> \<le> x" and "x < 2 powi (\<lfloor>log 2 x\<rfloor> + 1)"
proof -
  have "2 powr real_of_int \<lfloor>log 2 x\<rfloor> \<le> x \<and> x < 2 powr (real_of_int \<lfloor>log 2 x\<rfloor> + 1)"
    using floor_log_eq_powr_iff [OF assms, of 2 "\<lfloor>log 2 x\<rfloor>"] by simp
  moreover have "real_of_int \<lfloor>log 2 x\<rfloor> + 1 = real_of_int (\<lfloor>log 2 x\<rfloor> + 1)" by simp
  ultimately show "2 powi \<lfloor>log 2 x\<rfloor> \<le> x" and "x < 2 powi (\<lfloor>log 2 x\<rfloor> + 1)"
    by (simp_all only: pow2)
qed

lemma floor_log2_eq:
  assumes "0 < x" and "2 powi k \<le> x" and "x < 2 powi (k + 1)"
  shows "\<lfloor>log 2 x\<rfloor> = k"
proof -
  have "real_of_int k + 1 = real_of_int (k + 1)" by simp
  then have "2 powr real_of_int k \<le> x \<and> x < 2 powr (real_of_int k + 1)"
    using assms(2,3) by (simp only: pow2)
  then show ?thesis using floor_log_eq_powr_iff [OF assms(1), of 2 k] by simp
qed



lemma expo_normal:
  assumes "0 < x" and "2 powi e \<le> x" and "x < 2 powi (e + 1)" and "- 1022 \<le> e"
  shows "expo x = e"
  using floor_log2_eq [OF assms(1,2,3)] assms(1,4) by (simp add: expo_def)

lemma expo_subnormal:
  assumes "0 < x" and "x < 2 powi (- 1022)"
  shows "expo x = - 1022"
proof -
  have "\<not> - 1022 < \<lfloor>log 2 x\<rfloor>"
  proof
    assume "- 1022 < \<lfloor>log 2 x\<rfloor>"
    then have "(2::real) powi (- 1022) \<le> 2 powi \<lfloor>log 2 x\<rfloor>" by (intro pow2_mono) simp
    then show False using floor_log2(1) [OF assms(1)] assms(2) by linarith
  qed
  then show ?thesis using assms(1) by (simp add: expo_def)
qed






lemma rnd_pos: "0 < x \<Longrightarrow> rnd x = of_int (round_half_even (x / ulp x)) * ulp x"
  by (simp add: rnd_def)

lemma rnd_nonneg:
  assumes "0 < x"
  shows "0 \<le> rnd x"
proof -
  have "0 \<le> x / ulp x" using assms ulp_pos [of x] by simp
  then have "round_half_even 0 \<le> round_half_even (x / ulp x)" by (rule rhe_mono)
  then have "0 \<le> round_half_even (x / ulp x)" using rhe_of_int [of 0] by simp
  then show ?thesis using ulp_pos [of x] by (simp add: rnd_pos [OF assms])
qed





lemma rnd_eval:
  assumes "0 < x" and "expo x = e" and "\<bar>x / 2 powi (e - 52) - of_int n\<bar> < 1 / 2"
  shows "rnd x = of_int n * 2 powi (e - 52)"
  using assms(3) by (simp add: rnd_pos [OF assms(1)] ulp_def assms(2) rhe_near)

lemma fl_eval:
  assumes "0 < x" and "2 powi e \<le> x" and "x < 2 powi (e + 1)" and "- 1022 \<le> e"
      and "\<bar>x / 2 powi (e - 52) - of_int n\<bar> < 1 / 2"
      and "of_int n * 2 powi (e - 52) = y" and "y < 2 ^ 1024"
  shows "fl x = Fin y"
proof -
  have e: "expo x = e" using assms(1-4) by (rule expo_normal)
  have r: "rnd x = y" using rnd_eval [OF assms(1) e assms(5)] assms(6) by simp
  have "0 \<le> y" using rnd_nonneg [OF assms(1)] r by simp
  then show ?thesis using assms(7) by (simp add: fl_def r)
qed



















lemma f64_sub_Fin: "f64_sub (Fin x) (Fin y) = fl (x - y)"
  by (simp add: f64_sub_def)



lemma renderGap_run:
  assumes "cur usdState = Some c" and "anchor1530 usdState = Some a" and "cur beesState = Some l"
      and "c \<noteq> 0" and "a \<noteq> 0" and "l \<noteq> 0"
  shows "renderGap usdState beesState mdl view =
           view\<lparr> anchorText := Some a, nowText := Some c,
                 pctText := Some (f64_mul (f64_div (f64_sub (Fin c) (Fin a)) (Fin a)) (Fin 100)),
                 pctClass := ''gap-pct '' @ gap_cls (f64_div (f64_sub (Fin c) (Fin a)) (Fin a)),
                 expText := animateTo (expText view)
                   (f64_mul (Fin l) (f64_add (Fin 1)
                      (f64_mul (f64_div (f64_sub (Fin c) (Fin a)) (Fin a)) (Fin (beta mdl))))) \<rparr>"
  using assms by (simp add: renderGap_def truthy_def Let_def)




section \<open>Lemmas: rendering\<close>

lemma renderChange_priceText: "priceText (renderChange c p el) = priceText el"
  by (simp add: renderChange_def Let_def)

lemma price_block_priceText: "priceText (price_block c p el) = animateTo (priceText el) (Fin (the c))"
  by (simp add: price_block_def renderChange_priceText)

lemma inr_block_priceText: "priceText (inr_block c u el) = priceText el"
  by (simp add: inr_block_def)

lemma inr_block_changeText: "changeText (inr_block c u el) = changeText el"
  by (simp add: inr_block_def)

lemma price_block_changeText:
  "truthy c \<Longrightarrow> truthy p \<Longrightarrow>
     changeText (price_block c p el) = Some (f64_sub (Fin (the c)) (Fin (the p)))"
  by (simp add: price_block_def renderChange_def Let_def)

lemma renderUI_xau_price:
  "truthy (cur (xau S)) \<Longrightarrow>
     priceText (xauCard (renderUI S pg)) = Some (Fin (the (cur (xau S))))"
  by (simp add: renderUI_def inr_block_priceText price_block_priceText animateTo_def)

lemma renderUI_xau_change:
  "truthy (cur (xau S)) \<Longrightarrow> truthy (prev (xau S)) \<Longrightarrow>
     changeText (xauCard (renderUI S pg)) =
       Some (f64_sub (Fin (the (cur (xau S)))) (Fin (the (prev (xau S)))))"
  by (simp add: renderUI_def inr_block_changeText price_block_changeText)

lemma renderGap_nowText:
  "nowText (renderGap usdState beesState mdl view) = nowText view \<or>
   nowText (renderGap usdState beesState mdl view) = cur usdState"
  by (simp add: renderGap_def Let_def)

section \<open>Claims about the anchor scan\<close>

text \<open>
  C1.  Whenever the series holds a sample the scan looks at (a numeric close, a valid
  timestamp) whose minute of the day is within 5 minutes of 10:00 UTC, \<open>findAnchor1530\<close>
  returns the close of the most recent such sample: no sample after it is within
  tolerance, and no sample that is merely near the cutoff is returned in its place.
\<close>

theorem findAnchor1530_prefers_tolerance:
  assumes "\<exists>k<length timestamps. within_tolerance timestamps closes k"
  shows "\<exists>i<length timestamps.
           within_tolerance timestamps closes i \<and>
           (\<forall>j<length timestamps. i < j \<longrightarrow> \<not> within_tolerance timestamps closes j) \<and>
           elem closes i \<noteq> None \<and>
           findAnchor1530 (Some timestamps) (Some closes) = Inr (elem closes i)"
proof -
  obtain i where i: "i < length timestamps" "within_tolerance timestamps closes i"
      "\<forall>j<length timestamps. i < j \<longrightarrow> \<not> within_tolerance timestamps closes j"
    using ex_last [OF assms] by blast
  have "anchor_scan timestamps closes (length timestamps) None 30 = elem closes i"
    using i by (rule anchor_scan_exact)
  moreover have "elem closes i \<noteq> None"
    using i(2) by (auto simp: within_tolerance_def sample_diff_def split: option.splits)
  ultimately show ?thesis using i by (auto simp: findAnchor1530_def)
qed

theorem findAnchor1530_prefers_tolerance_witness:
  "within_tolerance [1768989600, 1768989780, 1769077200] [Some 2640, Some 2641, Some 2655] 0 \<and>
   within_tolerance [1768989600, 1768989780, 1769077200] [Some 2640, Some 2641, Some 2655] 1 \<and>
   \<not> within_tolerance [1768989600, 1768989780, 1769077200] [Some 2640, Some 2641, Some 2655] 2 \<and>
   within_window [1768989600, 1768989780, 1769077200] [Some 2640, Some 2641, Some 2655] 2 \<and>
   findAnchor1530 (Some [1768989600, 1768989780, 1769077200])
     (Some [Some 2640, Some 2641, Some 2655]) = Inr (Some 2641)"
proof -
  let ?ts = "[1768989600, 1768989780, 1769077200 :: int]"
  let ?cs = "[Some 2640, Some 2641, Some (2655::real)]"
  have w0: "within_tolerance ?ts ?cs 0"
    by (simp add: within_tolerance_def sample_diff_def elem_def candleMin_def TARGET_UTC_def)
  have w: "within_tolerance ?ts ?cs 1"
    by (simp add: within_tolerance_def sample_diff_def elem_def candleMin_def TARGET_UTC_def)
  then have h: "\<exists>k<length ?ts. within_tolerance ?ts ?cs k" by (intro exI [of _ 1]) simp
  have n2: "\<not> within_tolerance ?ts ?cs 2"
    by (simp add: within_tolerance_def sample_diff_def elem_def candleMin_def TARGET_UTC_def)
  have a2: "within_window ?ts ?cs 2"
    by (simp add: within_window_def sample_diff_def elem_def candleMin_def TARGET_UTC_def)
  obtain i where i: "i < length ?ts" "within_tolerance ?ts ?cs i"
      "\<forall>j<length ?ts. i < j \<longrightarrow> \<not> within_tolerance ?ts ?cs j"
      "findAnchor1530 (Some ?ts) (Some ?cs) = Inr (elem ?cs i)"
    using findAnchor1530_prefers_tolerance [OF h] by blast
  have "i = 1"
  proof -
    have "i < 3" using i(1) by simp
    then have "i = 0 \<or> i = 1 \<or> i = 2" by arith
    moreover have "i \<noteq> 0" using i(3) w by auto
    moreover have "i \<noteq> 2" using i(2) n2 by auto
    ultimately show ?thesis by blast
  qed
  then have "findAnchor1530 (Some ?ts) (Some ?cs) = Inr (Some 2641)"
    using i(4) by (simp add: elem_def)
  then show ?thesis using w0 w n2 a2 by blast
qed

text \<open>
  C2, as stated, fails: a sample of the most recent day that is inside the 30-minute
  window but outside the 5-minute tolerance loses against a within-tolerance sample
  of an older day.  Below, the older day has a candle at 10:00 UTC and the recent day
  one at 09:40 UTC; the anchor is the older day's close.
\<close>

theorem recent_day_counterexample:
  "within_window [1768989600, 1769074800] [Some 2640, Some 2655] 1 \<and>
   utc_day ([1768989600, 1769074800] ! 0) < utc_day ([1768989600, 1769074800] ! 1) \<and>
   findAnchor1530 (Some [1768989600, 1769074800]) (Some [Some 2640, Some 2655]) = Inr (Some 2640) \<and>
   elem [Some 2640, Some (2655::real)] 0 = Some 2640 \<and>
   elem [Some 2640, Some (2655::real)] 1 = Some 2655"
  by (simp add: within_window_def sample_diff_def elem_def candleMin_def TARGET_UTC_def
        utc_day_def findAnchor1530_def numeral_2_eq_2)

text \<open>
  C2, amended.  For a series in ascending time order, whenever some day holds a
  sample within the 5-minute tolerance of the cutoff, the anchor is the close of a
  within-tolerance sample of that day or of a more recent one: an older sample is
  never returned, however close to the cutoff it is.
\<close>

theorem findAnchor1530_recent_tolerance_day:
  assumes "sorted timestamps" and "j < length timestamps"
      and "within_tolerance timestamps closes j"
  shows "\<exists>i<length timestamps.
           j \<le> i \<and> within_tolerance timestamps closes i \<and>
           utc_day (timestamps ! j) \<le> utc_day (timestamps ! i) \<and>
           findAnchor1530 (Some timestamps) (Some closes) = Inr (elem closes i)"
proof -
  have "\<exists>k<length timestamps. within_tolerance timestamps closes k" using assms(2,3) by blast
  then obtain i where i: "i < length timestamps" "within_tolerance timestamps closes i"
      "\<forall>j<length timestamps. i < j \<longrightarrow> \<not> within_tolerance timestamps closes j"
    using ex_last by blast
  have ji: "j \<le> i" using i(3) assms(2,3) by (meson not_le)
  have "timestamps ! j \<le> timestamps ! i"
    using assms(1) ji i(1) by (rule sorted_nth_mono)
  then have day: "utc_day (timestamps ! j) \<le> utc_day (timestamps ! i)"
    by (simp add: utc_day_def zdiv_mono1)
  have "anchor_scan timestamps closes (length timestamps) None 30 = elem closes i"
    using i by (rule anchor_scan_exact)
  then show ?thesis using i ji day by (auto simp: findAnchor1530_def)
qed

theorem findAnchor1530_recent_tolerance_day_witness:
  "sorted [1768989600, 1769077200 :: int] \<and> (0::nat) < length [1768989600, 1769077200 :: int] \<and>
   within_tolerance [1768989600, 1769077200] [Some 2640, Some 2655] 0 \<and>
   findAnchor1530 (Some [1768989600, 1769077200]) (Some [Some 2640, Some 2655]) = Inr (Some 2640)"
proof -
  let ?ts = "[1768989600, 1769077200 :: int]"
  let ?cs = "[Some 2640, Some (2655::real)]"
  have s: "sorted ?ts" by simp
  have l: "(0::nat) < length ?ts" by simp
  have w: "within_tolerance ?ts ?cs 0"
    by (simp add: within_tolerance_def sample_diff_def elem_def candleMin_def TARGET_UTC_def)
  have n1: "\<not> within_tolerance ?ts ?cs 1"
    by (simp add: within_tolerance_def sample_diff_def elem_def candleMin_def TARGET_UTC_def)
  obtain i where i: "i < length ?ts" "within_tolerance ?ts ?cs i"
      "findAnchor1530 (Some ?ts) (Some ?cs) = Inr (elem ?cs i)"
    using findAnchor1530_recent_tolerance_day [OF s l w] by blast
  have "i = 0"
  proof -
    have "i < 2" using i(1) by simp
    then have "i = 0 \<or> i = 1" by arith
    then show ?thesis using i(2) n1 by auto
  qed
  then show ?thesis using s l w i(3) by (simp add: elem_def)
qed

text \<open>
  C3.  When no sample the scan looks at is less than 30 minutes from the cutoff,
  \<open>findAnchor1530\<close> returns \<open>null\<close>; the nearest sample overall is not returned.  (A
  sample exactly 30 minutes away is outside the window, as the witness shows.)
\<close>

theorem findAnchor1530_null_outside_window:
  assumes "\<forall>i<length timestamps. \<not> within_window timestamps closes i"
  shows "findAnchor1530 (Some timestamps) (Some closes) = Inr None"
proof -
  have "\<forall>i<length timestamps. \<forall>d. sample_diff timestamps closes i = Some d \<longrightarrow> 5 < d \<and> 30 \<le> d"
    using assms by (auto simp: within_window_def split: option.splits)
  then have "anchor_scan timestamps closes (length timestamps) None 30 = None"
    by (simp add: anchor_scan_none)
  then show ?thesis by (simp add: findAnchor1530_def)
qed

theorem findAnchor1530_null_outside_window_witness:
  "length [1769072400, 1769077800, 1769079600 :: int] = 3 \<and>
   \<not> within_window [1769072400, 1769077800, 1769079600] [Some 2650, Some 2655, Some 2660] 0 \<and>
   \<not> within_window [1769072400, 1769077800, 1769079600] [Some 2650, Some 2655, Some 2660] 1 \<and>
   \<not> within_window [1769072400, 1769077800, 1769079600] [Some 2650, Some 2655, Some 2660] 2 \<and>
   findAnchor1530 (Some [1769072400, 1769077800, 1769079600])
     (Some [Some 2650, Some 2655, Some 2660]) = Inr None"
proof -
  let ?ts = "[1769072400, 1769077800, 1769079600 :: int]"
  let ?cs = "[Some 2650, Some 2655, Some (2660::real)]"
  have w: "\<not> within_window ?ts ?cs 0" "\<not> within_window ?ts ?cs 1" "\<not> within_window ?ts ?cs 2"
    by (simp_all add: within_window_def sample_diff_def elem_def candleMin_def TARGET_UTC_def)
  have h: "\<forall>i<length ?ts. \<not> within_window ?ts ?cs i"
    using w by (simp add: All_less_Suc numeral_3_eq_3 numeral_2_eq_2)
  show ?thesis using w findAnchor1530_null_outside_window [OF h] by simp
qed

section \<open>Claims about the chart adapter\<close>

text \<open>
  C4, as stated, fails: the fallback is guarded by \<open>!obj.anchor1530\<close>.  Below the
  record already holds the anchor 2640, the scan finds none in the response, the
  resolved previous close is 2650, and the anchor stays 2640.
\<close>

theorem anchor_fallback_counterexample:
  "findAnchor1530 (Some [1769072400]) (Some [Some 2660]) = Inr None \<and>
   resolve_prev \<lparr> regularMarketPrice = Some 2660, regularMarketPreviousClose = Some 2650,
                  previousClose = None, chartPreviousClose = None \<rparr> = Some 2650 \<and>
   anchor1530 (xau (snd (processUSD ''GC=F''
       \<lparr> meta = Some \<lparr> regularMarketPrice = Some 2660, regularMarketPreviousClose = Some 2650,
                        previousClose = None, chartPreviousClose = None \<rparr>,
         timestamp = Some [1769072400],
         quote0 = Some \<lparr> close = Some [Some 2660] \<rparr> \<rparr>
       (S_init \<lparr> xau := \<lparr> cur = Some 2655, prev = Some 2650, anchor1530 = Some 2640 \<rparr> \<rparr>))))
     = Some 2640"
  by (simp add: processUSD_def findAnchor1530_def resolve_prev_def nullish_or_def usd_obj_def
        put_usd_def S_init_def truthy_def elem_def candleMin_def TARGET_UTC_def)

text \<open>
  C4, amended.  When \<open>findAnchor1530\<close> returns \<open>null\<close> for the response and the call
  completes, \<open>processUSD\<close> sets \<open>anchor1530\<close> of the record to the resolved previous
  close if the record's anchor was falsy (0, \<open>null\<close> or missing), and keeps the anchor
  the record had otherwise.
\<close>

theorem processUSD_anchor_fallback:
  assumes "quote0 raw = Some q" and "meta raw = Some m"
      and "findAnchor1530 (timestamp raw) (close q) = Inr None"
      and "fst (processUSD symbol raw S) = None"
  shows "anchor1530 (usd_obj symbol (snd (processUSD symbol raw S))) =
           (if truthy (anchor1530 (usd_obj symbol S)) then anchor1530 (usd_obj symbol S)
            else resolve_prev m)"
  using assms
  by (auto simp: processUSD_def Let_def usd_obj_def put_usd_def truthy_def
           split: option.splits sum.splits if_splits)

theorem processUSD_anchor_fallback_witness:
  "quote0 \<lparr> meta = Some \<lparr> regularMarketPrice = Some 2660, regularMarketPreviousClose = Some 2650,
                            previousClose = None, chartPreviousClose = None \<rparr>,
             timestamp = Some [1769072400],
             quote0 = Some \<lparr> close = Some [Some 2660] \<rparr> \<rparr> = Some \<lparr> close = Some [Some 2660] \<rparr> \<and>
   findAnchor1530 (Some [1769072400]) (Some [Some 2660]) = Inr None \<and>
   processUSD ''GC=F''
       \<lparr> meta = Some \<lparr> regularMarketPrice = Some 2660, regularMarketPreviousClose = Some 2650,
                        previousClose = None, chartPreviousClose = None \<rparr>,
         timestamp = Some [1769072400],
         quote0 = Some \<lparr> close = Some [Some 2660] \<rparr> \<rparr> S_init
     = (None, S_init \<lparr> xau := \<lparr> cur = Some 0, prev = Some 0, anchor1530 = Some 2650 \<rparr> \<rparr>) \<and>
   anchor1530 (usd_obj ''GC=F'' (snd (processUSD ''GC=F''
       \<lparr> meta = Some \<lparr> regularMarketPrice = Some 2660, regularMarketPreviousClose = Some 2650,
                        previousClose = None, chartPreviousClose = None \<rparr>,
         timestamp = Some [1769072400],
         quote0 = Some \<lparr> close = Some [Some 2660] \<rparr> \<rparr> S_init))) = Some 2650"
proof -
  let ?m = "\<lparr> regularMarketPrice = Some 2660, regularMarketPreviousClose = Some 2650,
              previousClose = None, chartPreviousClose = None \<rparr>"
  let ?q = "\<lparr> close = Some [Some (2660::real)] \<rparr>"
  let ?raw = "\<lparr> meta = Some ?m, timestamp = Some [1769072400], quote0 = Some ?q \<rparr>"
  have q: "quote0 ?raw = Some ?q" by simp
  have m: "meta ?raw = Some ?m" by simp
  have f: "findAnchor1530 (timestamp ?raw) (close ?q) = Inr None"
    by (simp add: findAnchor1530_def elem_def candleMin_def TARGET_UTC_def)
  have r: "processUSD ''GC=F'' ?raw S_init
      = (None, S_init \<lparr> xau := \<lparr> cur = Some 0, prev = Some 0, anchor1530 = Some 2650 \<rparr> \<rparr>)"
    by (simp add: processUSD_def findAnchor1530_def resolve_prev_def nullish_or_def usd_obj_def
          put_usd_def S_init_def truthy_def elem_def candleMin_def TARGET_UTC_def)
  then have c: "fst (processUSD ''GC=F'' ?raw S_init) = None" by simp
  have z: "\<not> truthy (anchor1530 (usd_obj ''GC=F'' S_init))"
    by (simp add: usd_obj_def S_init_def truthy_def)
  have p: "resolve_prev ?m = Some 2650" by (simp add: resolve_prev_def nullish_or_def)
  show ?thesis
    using processUSD_anchor_fallback [OF q m f c] q f r z p by simp
qed

text \<open>
  C9.  The previous close is the first non-null one of \<open>regularMarketPreviousClose\<close>,
  \<open>previousClose\<close> and \<open>chartPreviousClose\<close>, in this order.  \<open>processBees\<close> stores it
  as \<open>prev\<close> whenever it completes, and it completes on every response whose \<open>meta\<close>
  has a market price.  \<open>processUSD\<close> completes on every response that has a \<open>meta\<close> with
  a market price, timestamps and closes; it stores the resolved value as \<open>prev\<close> when
  the source is the chart provider and, whatever the source, as \<open>anchor1530\<close> when the
  scan finds no anchor and the record holds none.  With the three fields \<open>null\<close>, 105.2
  and 104.9 the resolved value is 105.2.
\<close>

theorem previous_close_precedence:
  "resolve_prev m =
     first_non_null [regularMarketPreviousClose m, previousClose m, chartPreviousClose m] \<and>
   (meta raw = Some m \<and> fst (processBees symbol raw S) = None
      \<longrightarrow> prev (bees_obj symbol (snd (processBees symbol raw S))) =
            first_non_null [regularMarketPreviousClose m, previousClose m, chartPreviousClose m]) \<and>
   (meta raw = Some m \<and> fst (processUSD symbol raw S) = None \<and> source S = ''yahoo''
      \<longrightarrow> prev (usd_obj symbol (snd (processUSD symbol raw S))) =
            first_non_null [regularMarketPreviousClose m, previousClose m, chartPreviousClose m]) \<and>
   (meta raw = Some m \<and> quote0 raw = Some q \<and>
    findAnchor1530 (timestamp raw) (close q) = Inr None \<and>
    fst (processUSD symbol raw S) = None \<and> \<not> truthy (anchor1530 (usd_obj symbol S))
      \<longrightarrow> anchor1530 (usd_obj symbol (snd (processUSD symbol raw S))) =
            first_non_null [regularMarketPreviousClose m, previousClose m, chartPreviousClose m]) \<and>
   (meta raw = Some m \<and> regularMarketPrice m = Some c \<and> quote0 raw = Some q \<and>
    timestamp raw = Some ts \<and> close q = Some cs
      \<longrightarrow> fst (processUSD symbol raw S) = None) \<and>
   (meta raw = Some m \<and> regularMarketPrice m = Some c
      \<longrightarrow> fst (processBees symbol raw S) = None) \<and>
   resolve_prev \<lparr> regularMarketPrice = p, regularMarketPreviousClose = None,
                  previousClose = Some 105.2, chartPreviousClose = Some 104.9 \<rparr> = Some 105.2"
proof -
  have a: "resolve_prev m =
     first_non_null [regularMarketPreviousClose m, previousClose m, chartPreviousClose m]"
    by (simp add: resolve_prev_def nullish_or_def split: option.splits)
  have b: "meta raw = Some m \<and> fst (processBees symbol raw S) = None
      \<longrightarrow> prev (bees_obj symbol (snd (processBees symbol raw S))) = resolve_prev m"
    by (auto simp: processBees_def Let_def bees_obj_def put_bees_def
             split: option.splits sum.splits)
  have c: "meta raw = Some m \<and> fst (processUSD symbol raw S) = None \<and> source S = ''yahoo''
      \<longrightarrow> prev (usd_obj symbol (snd (processUSD symbol raw S))) = resolve_prev m"
    by (auto simp: processUSD_def Let_def usd_obj_def put_usd_def
             split: option.splits sum.splits)
  have d: "meta raw = Some m \<and> quote0 raw = Some q \<and>
    findAnchor1530 (timestamp raw) (close q) = Inr None \<and>
    fst (processUSD symbol raw S) = None \<and> \<not> truthy (anchor1530 (usd_obj symbol S))
      \<longrightarrow> anchor1530 (usd_obj symbol (snd (processUSD symbol raw S))) = resolve_prev m"
    by (auto simp: processUSD_def Let_def usd_obj_def put_usd_def truthy_def
             split: option.splits sum.splits if_splits)
  have e: "meta raw = Some m \<and> regularMarketPrice m = Some c \<and> quote0 raw = Some q \<and>
    timestamp raw = Some ts \<and> close q = Some cs
      \<longrightarrow> fst (processUSD symbol raw S) = None"
    by (auto simp: processUSD_def Let_def findAnchor1530_def split: option.splits sum.splits)
  have f: "meta raw = Some m \<and> regularMarketPrice m = Some c
      \<longrightarrow> fst (processBees symbol raw S) = None"
    by (auto simp: processBees_def Let_def split: option.splits sum.splits)
  have g: "resolve_prev \<lparr> regularMarketPrice = p, regularMarketPreviousClose = None,
                  previousClose = Some 105.2, chartPreviousClose = Some 104.9 \<rparr> = Some 105.2"
    by (simp add: resolve_prev_def nullish_or_def)
  show ?thesis using a b c d e f g by simp
qed

theorem previous_close_precedence_witness:
  "fst (processUSD ''GC=F''
          \<lparr> meta = Some \<lparr> regularMarketPrice = Some 106, regularMarketPreviousClose = None,
                          previousClose = Some 105.2, chartPreviousClose = Some 104.9 \<rparr>,
            timestamp = Some [1769072400],
            quote0 = Some \<lparr> close = Some [Some 106] \<rparr> \<rparr>
          (S_init \<lparr> source := ''yahoo'' \<rparr>)) = None \<and>
   prev (xau (snd (processUSD ''GC=F''
          \<lparr> meta = Some \<lparr> regularMarketPrice = Some 106, regularMarketPreviousClose = None,
                          previousClose = Some 105.2, chartPreviousClose = Some 104.9 \<rparr>,
            timestamp = Some [1769072400],
            quote0 = Some \<lparr> close = Some [Some 106] \<rparr> \<rparr>
          (S_init \<lparr> source := ''yahoo'' \<rparr>)))) = Some 105.2 \<and>
   findAnchor1530 (Some [1769072400]) (Some [Some 106]) = Inr None \<and>
   anchor1530 (xau (snd (processUSD ''GC=F''
          \<lparr> meta = Some \<lparr> regularMarketPrice = Some 106, regularMarketPreviousClose = None,
                          previousClose = Some 105.2, chartPreviousClose = Some 104.9 \<rparr>,
            timestamp = Some [1769072400],
            quote0 = Some \<lparr> close = Some [Some 106] \<rparr> \<rparr> S_init))) = Some 105.2 \<and>
   fst (processBees ''GOLDBEES.NS''
          \<lparr> meta = Some \<lparr> regularMarketPrice = Some 106, regularMarketPreviousClose = None,
                          previousClose = Some 105.2, chartPreviousClose = Some 104.9 \<rparr>,
            timestamp = None, quote0 = None \<rparr> S_init) = None \<and>
   prev (goldBees (snd (processBees ''GOLDBEES.NS''
          \<lparr> meta = Some \<lparr> regularMarketPrice = Some 106, regularMarketPreviousClose = None,
                          previousClose = Some 105.2, chartPreviousClose = Some 104.9 \<rparr>,
            timestamp = None, quote0 = None \<rparr> S_init))) = Some 105.2"
proof -
  let ?m = "\<lparr> regularMarketPrice = Some 106, regularMarketPreviousClose = None,
              previousClose = Some 105.2, chartPreviousClose = Some 104.9 \<rparr>"
  let ?q = "\<lparr> close = Some [Some (106::real)] \<rparr>"
  let ?raw = "\<lparr> meta = Some ?m, timestamp = Some [1769072400], quote0 = Some ?q \<rparr>"
  let ?bare = "\<lparr> meta = Some ?m, timestamp = None, quote0 = None \<rparr>"
  let ?Y = "S_init \<lparr> source := ''yahoo'' \<rparr>"
  note t = previous_close_precedence [where m = ?m and q = ?q and c = 106
             and ts = "[1769072400]" and cs = "[Some 106]" and symbol = "''GC=F''"]
  note u = previous_close_precedence [where m = ?m and raw = ?bare and c = 106
             and symbol = "''GOLDBEES.NS''" and S = S_init]
  have f: "first_non_null [regularMarketPreviousClose ?m, previousClose ?m, chartPreviousClose ?m]
             = Some 105.2"
    by simp
  have s: "findAnchor1530 (Some [1769072400]) (Some [Some 106]) = Inr None"
    by (simp add: findAnchor1530_def elem_def candleMin_def TARGET_UTC_def)
  have z: "\<not> truthy (anchor1530 (usd_obj ''GC=F'' S_init))"
    by (simp add: usd_obj_def S_init_def truthy_def)
  have y: "source ?Y = ''yahoo''" by simp
  have c1: "fst (processUSD ''GC=F'' ?raw ?Y) = None"
    using t [where raw = ?raw and S = ?Y] by simp
  have c2: "prev (usd_obj ''GC=F'' (snd (processUSD ''GC=F'' ?raw ?Y))) = Some 105.2"
    using t [where raw = ?raw and S = ?Y] c1 y f by simp
  have c3: "fst (processUSD ''GC=F'' ?raw S_init) = None"
    using t [where raw = ?raw and S = S_init] by simp
  have c4: "anchor1530 (usd_obj ''GC=F'' (snd (processUSD ''GC=F'' ?raw S_init))) = Some 105.2"
    using t [where raw = ?raw and S = S_init] c3 s z f by simp
  have c5: "fst (processBees ''GOLDBEES.NS'' ?bare S_init) = None"
    using u by simp
  have c6: "prev (bees_obj ''GOLDBEES.NS'' (snd (processBees ''GOLDBEES.NS'' ?bare S_init)))
              = Some 105.2"
    using u c5 f by simp
  show ?thesis
    using c1 c2 s c4 c5 c6 by (simp add: usd_obj_def bees_obj_def)
qed

text \<open>
  C10, as stated, fails in its last part: scanner data is not the only origin of the
  displayed values.  At startup \<open>loadCache\<close> copies the snapshot kept in \<open>localStorage\<close>
  into the store and renders it.  Below the source is \<open>'tradingview'\<close>, no scanner
  payload has been processed, and the gold card shows the cached price 1234 and its
  change 34 against the cached previous close 1200.
\<close>

theorem cached_display_counterexample:
  "source (fst (loadCache
      (Some \<lparr> d_xau = Some \<lparr> d_cur = Some (Some 1234), d_prev = Some (Some 1200),
                               d_anchor1530 = Some (Some 1190) \<rparr>,
              d_xag = None, d_usdinr = None, d_goldBees = None, d_silverBees = None,
              d_xauM = None, d_xagM = None \<rparr>) (S_init, blank_page))) = ''tradingview'' \<and>
   xau (fst (loadCache
      (Some \<lparr> d_xau = Some \<lparr> d_cur = Some (Some 1234), d_prev = Some (Some 1200),
                               d_anchor1530 = Some (Some 1190) \<rparr>,
              d_xag = None, d_usdinr = None, d_goldBees = None, d_silverBees = None,
              d_xauM = None, d_xagM = None \<rparr>) (S_init, blank_page)))
     = \<lparr> cur = Some 1234, prev = Some 1200, anchor1530 = Some 1190 \<rparr> \<and>
   priceText (xauCard (snd (loadCache
      (Some \<lparr> d_xau = Some \<lparr> d_cur = Some (Some 1234), d_prev = Some (Some 1200),
                               d_anchor1530 = Some (Some 1190) \<rparr>,
              d_xag = None, d_usdinr = None, d_goldBees = None, d_silverBees = None,
              d_xauM = None, d_xagM = None \<rparr>) (S_init, blank_page)))) = Some (Fin 1234) \<and>
   changeText (xauCard (snd (loadCache
      (Some \<lparr> d_xau = Some \<lparr> d_cur = Some (Some 1234), d_prev = Some (Some 1200),
                               d_anchor1530 = Some (Some 1190) \<rparr>,
              d_xag = None, d_usdinr = None, d_goldBees = None, d_silverBees = None,
              d_xauM = None, d_xagM = None \<rparr>) (S_init, blank_page)))) = Some (Fin 34)"
proof -
  let ?d = "\<lparr> d_xau = Some \<lparr> d_cur = Some (Some 1234), d_prev = Some (Some 1200),
                               d_anchor1530 = Some (Some 1190) \<rparr>,
              d_xag = None, d_usdinr = None, d_goldBees = None, d_silverBees = None,
              d_xauM = None, d_xagM = None \<rparr>"
  let ?S = "S_init \<lparr> xau := \<lparr> cur = Some 1234, prev = Some 1200, anchor1530 = Some 1190 \<rparr> \<rparr>"
  have l: "loadCache (Some ?d) (S_init, blank_page)
             = (?S \<lparr> firstLoad := False \<rparr>, renderUI ?S blank_page)"
    by (simp add: loadCache_def Let_def assign_usd_def assign_quote_def S_init_def)
  have c: "truthy (cur (xau ?S))" and p: "truthy (prev (xau ?S))"
    by (simp_all add: truthy_def)
  have s: "f64_sub (Fin 1234) (Fin 1200) = Fin 34"
    unfolding f64_sub_Fin
    by (rule fl_eval [where e = 5 and n = 4785074604081152]) simp_all
  have a: "source (fst (loadCache (Some ?d) (S_init, blank_page))) = ''tradingview''"
    unfolding l by (simp add: S_init_def)
  have b: "xau (fst (loadCache (Some ?d) (S_init, blank_page)))
             = \<lparr> cur = Some 1234, prev = Some 1200, anchor1530 = Some 1190 \<rparr>"
    unfolding l by simp
  have x: "priceText (xauCard (snd (loadCache (Some ?d) (S_init, blank_page)))) = Some (Fin 1234)"
    unfolding l using renderUI_xau_price [OF c, of blank_page] by simp
  have y: "changeText (xauCard (snd (loadCache (Some ?d) (S_init, blank_page)))) = Some (Fin 34)"
    unfolding l using renderUI_xau_change [OF c p, of blank_page] s by simp
  show ?thesis by (intro conjI a b x y)
qed

text \<open>
  C10, amended.  With the scanner (\<open>'tradingview'\<close>, the value the store starts with) as
  the source, \<open>processUSD\<close> leaves \<open>cur\<close> and \<open>prev\<close> of the gold and the silver record as
  they were, whatever the chart response, also when it throws: the store it leaves
  differs from the one it found in the two \<open>anchor1530\<close> fields at most.  So every
  price card that \<open>renderUI\<close> draws from the store is the same after the call as before
  it, and the current price on a prediction card is what the card showed before or the
  \<open>cur\<close> that the record already had: a chart response never reaches a displayed
  current or previous-close value.  The chart adapter aside, the records are also
  written by \<open>loadCache\<close>, which copies into each of them the properties present in
  the cached snapshot.
\<close>

theorem processUSD_frame_tradingview:
  assumes "source S = ''tradingview''"
  shows "source S_init = ''tradingview'' \<and>
         cur (xau (snd (processUSD symbol raw S))) = cur (xau S) \<and>
         prev (xau (snd (processUSD symbol raw S))) = prev (xau S) \<and>
         cur (xag (snd (processUSD symbol raw S))) = cur (xag S) \<and>
         prev (xag (snd (processUSD symbol raw S))) = prev (xag S) \<and>
         snd (processUSD symbol raw S) =
           S \<lparr> xau := (xau S) \<lparr> anchor1530 := anchor1530 (xau (snd (processUSD symbol raw S))) \<rparr>,
               xag := (xag S) \<lparr> anchor1530 := anchor1530 (xag (snd (processUSD symbol raw S))) \<rparr> \<rparr> \<and>
         xauCard (renderUI (snd (processUSD symbol raw S)) pg) = xauCard (renderUI S pg) \<and>
         xagCard (renderUI (snd (processUSD symbol raw S)) pg) = xagCard (renderUI S pg) \<and>
         usdinrCard (renderUI (snd (processUSD symbol raw S)) pg) = usdinrCard (renderUI S pg) \<and>
         gbCard (renderUI (snd (processUSD symbol raw S)) pg) = gbCard (renderUI S pg) \<and>
         sbCard (renderUI (snd (processUSD symbol raw S)) pg) = sbCard (renderUI S pg) \<and>
         xaumCard (renderUI (snd (processUSD symbol raw S)) pg) = xaumCard (renderUI S pg) \<and>
         xagmCard (renderUI (snd (processUSD symbol raw S)) pg) = xagmCard (renderUI S pg) \<and>
         (nowText (goldGap (renderUI (snd (processUSD symbol raw S)) pg)) = nowText (goldGap pg) \<or>
          nowText (goldGap (renderUI (snd (processUSD symbol raw S)) pg)) = cur (xau S)) \<and>
         (nowText (silverGap (renderUI (snd (processUSD symbol raw S)) pg)) = nowText (silverGap pg) \<or>
          nowText (silverGap (renderUI (snd (processUSD symbol raw S)) pg)) = cur (xag S)) \<and>
         fst (loadCache (Some d) (S, pg)) =
           S \<lparr> xau := assign_usd (xau S) (d_xau d), xag := assign_usd (xag S) (d_xag d),
               usdinr := assign_quote (usdinr S) (d_usdinr d),
               goldBees := assign_quote (goldBees S) (d_goldBees d),
               silverBees := assign_quote (silverBees S) (d_silverBees d),
               xauM := assign_quote (xauM S) (d_xauM d),
               xagM := assign_quote (xagM S) (d_xagM d), firstLoad := False \<rparr>"
proof -
  let ?T = "snd (processUSD symbol raw S)"
  have i: "source S_init = ''tradingview''" by (simp add: S_init_def)
  have fr: "?T = S \<lparr> xau := (xau S) \<lparr> anchor1530 := anchor1530 (xau ?T) \<rparr>,
                     xag := (xag S) \<lparr> anchor1530 := anchor1530 (xag ?T) \<rparr> \<rparr>"
    using assms
    by (auto simp: processUSD_def Let_def usd_obj_def put_usd_def
             split: option.splits sum.splits)
  obtain a b where T: "?T = S \<lparr> xau := (xau S) \<lparr> anchor1530 := a \<rparr>,
                                xag := (xag S) \<lparr> anchor1530 := b \<rparr> \<rparr>"
    using fr by blast
  have c: "cur (xau ?T) = cur (xau S)" "prev (xau ?T) = prev (xau S)"
      "cur (xag ?T) = cur (xag S)" "prev (xag ?T) = prev (xag S)"
    by (simp_all add: T)
  have k: "xauCard (renderUI ?T pg) = xauCard (renderUI S pg)"
      "xagCard (renderUI ?T pg) = xagCard (renderUI S pg)"
      "usdinrCard (renderUI ?T pg) = usdinrCard (renderUI S pg)"
      "gbCard (renderUI ?T pg) = gbCard (renderUI S pg)"
      "sbCard (renderUI ?T pg) = sbCard (renderUI S pg)"
      "xaumCard (renderUI ?T pg) = xaumCard (renderUI S pg)"
      "xagmCard (renderUI ?T pg) = xagmCard (renderUI S pg)"
    by (simp_all add: T renderUI_def)
  have g: "nowText (goldGap (renderUI ?T pg)) = nowText (goldGap pg) \<or>
           nowText (goldGap (renderUI ?T pg)) = cur (xau S)"
    using renderGap_nowText [of "xau ?T" "goldBees ?T" GOLD_MODEL "goldGap pg"]
    by (simp add: renderUI_def c)
  have h: "nowText (silverGap (renderUI ?T pg)) = nowText (silverGap pg) \<or>
           nowText (silverGap (renderUI ?T pg)) = cur (xag S)"
    using renderGap_nowText [of "xag ?T" "silverBees ?T" SILVER_MODEL "silverGap pg"]
    by (simp add: renderUI_def c)
  have l: "fst (loadCache (Some d) (S, pg)) =
           S \<lparr> xau := assign_usd (xau S) (d_xau d), xag := assign_usd (xag S) (d_xag d),
               usdinr := assign_quote (usdinr S) (d_usdinr d),
               goldBees := assign_quote (goldBees S) (d_goldBees d),
               silverBees := assign_quote (silverBees S) (d_silverBees d),
               xauM := assign_quote (xauM S) (d_xauM d),
               xagM := assign_quote (xagM S) (d_xagM d), firstLoad := False \<rparr>"
    by (simp add: loadCache_def Let_def)
  show ?thesis by (intro conjI i c fr k g h l)
qed

theorem processUSD_frame_tradingview_witness:
  "source (S_init \<lparr> xau := \<lparr> cur = Some 2655, prev = Some 2650, anchor1530 = Some 0 \<rparr> \<rparr>)
     = ''tradingview'' \<and>
   snd (processUSD ''GC=F''
       \<lparr> meta = Some \<lparr> regularMarketPrice = Some 2660, regularMarketPreviousClose = Some 2651,
                        previousClose = None, chartPreviousClose = None \<rparr>,
         timestamp = Some [1768989600],
         quote0 = Some \<lparr> close = Some [Some 2640] \<rparr> \<rparr>
       (S_init \<lparr> xau := \<lparr> cur = Some 2655, prev = Some 2650, anchor1530 = Some 0 \<rparr> \<rparr>))
     = S_init \<lparr> xau := \<lparr> cur = Some 2655, prev = Some 2650, anchor1530 = Some 2640 \<rparr> \<rparr> \<and>
   priceText (xauCard (renderUI (snd (processUSD ''GC=F''
       \<lparr> meta = Some \<lparr> regularMarketPrice = Some 2660, regularMarketPreviousClose = Some 2651,
                        previousClose = None, chartPreviousClose = None \<rparr>,
         timestamp = Some [1768989600],
         quote0 = Some \<lparr> close = Some [Some 2640] \<rparr> \<rparr>
       (S_init \<lparr> xau := \<lparr> cur = Some 2655, prev = Some 2650, anchor1530 = Some 0 \<rparr> \<rparr>)))
     blank_page)) = Some (Fin 2655) \<and>
   changeText (xauCard (renderUI (snd (processUSD ''GC=F''
       \<lparr> meta = Some \<lparr> regularMarketPrice = Some 2660, regularMarketPreviousClose = Some 2651,
                        previousClose = None, chartPreviousClose = None \<rparr>,
         timestamp = Some [1768989600],
         quote0 = Some \<lparr> close = Some [Some 2640] \<rparr> \<rparr>
       (S_init \<lparr> xau := \<lparr> cur = Some 2655, prev = Some 2650, anchor1530 = Some 0 \<rparr> \<rparr>)))
     blank_page)) = Some (Fin 5)"
proof -
  let ?raw = "\<lparr> meta = Some \<lparr> regularMarketPrice = Some 2660, regularMarketPreviousClose = Some 2651,
                        previousClose = None, chartPreviousClose = None \<rparr>,
         timestamp = Some [1768989600],
         quote0 = Some \<lparr> close = Some [Some (2640::real)] \<rparr> \<rparr>"
  let ?S = "S_init \<lparr> xau := \<lparr> cur = Some 2655, prev = Some 2650, anchor1530 = Some 0 \<rparr> \<rparr>"
  have s: "source ?S = ''tradingview''" by (simp add: S_init_def)
  have r: "snd (processUSD ''GC=F'' ?raw ?S)
     = S_init \<lparr> xau := \<lparr> cur = Some 2655, prev = Some 2650, anchor1530 = Some 2640 \<rparr> \<rparr>"
    by (simp add: processUSD_def findAnchor1530_def resolve_prev_def nullish_or_def usd_obj_def
          put_usd_def S_init_def truthy_def elem_def candleMin_def TARGET_UTC_def)
  have c: "truthy (cur (xau ?S))" and p: "truthy (prev (xau ?S))"
    by (simp_all add: truthy_def)
  have d: "f64_sub (Fin 2655) (Fin 2650) = Fin 5"
    unfolding f64_sub_Fin
    by (rule fl_eval [where e = 2 and n = 5629499534213120]) simp_all
  have k: "xauCard (renderUI (snd (processUSD ''GC=F'' ?raw ?S)) blank_page)
             = xauCard (renderUI ?S blank_page)"
    using processUSD_frame_tradingview [OF s, of "''GC=F''" ?raw blank_page] by blast
  have x: "priceText (xauCard (renderUI (snd (processUSD ''GC=F'' ?raw ?S)) blank_page))
             = Some (Fin 2655)"
    unfolding k using renderUI_xau_price [OF c, of blank_page] by simp
  have y: "changeText (xauCard (renderUI (snd (processUSD ''GC=F'' ?raw ?S)) blank_page))
             = Some (Fin 5)"
    unfolding k using renderUI_xau_change [OF c p, of blank_page] d by simp
  show ?thesis by (intro conjI s r x y)
qed

section \<open>Claims about the gap prediction\<close>




text \<open>
  C6.  If the international price, the anchor or the local price is zero, \<open>null\<close> or
  missing, \<open>renderGap\<close> (in both versions) returns at once and leaves the card as it
  was; it changes the card only when all three are non-zero numbers.
\<close>

theorem renderGap_guard:
  "(cur usdState = None \<or> cur usdState = Some 0 \<or>
    anchor1530 usdState = None \<or> anchor1530 usdState = Some 0 \<or>
    cur beesState = None \<or> cur beesState = Some 0
      \<longrightarrow> renderGap usdState beesState mdl view = view \<and>
          renderGap_v2 usdState beesState view = view) \<and>
   (renderGap usdState beesState mdl view \<noteq> view \<or> renderGap_v2 usdState beesState view \<noteq> view
      \<longrightarrow> (\<exists>c a l. cur usdState = Some c \<and> c \<noteq> 0 \<and> anchor1530 usdState = Some a \<and> a \<noteq> 0 \<and>
                   cur beesState = Some l \<and> l \<noteq> 0))"
proof -
  have g: "\<not> truthy (cur usdState) \<or> \<not> truthy (anchor1530 usdState) \<or> \<not> truthy (cur beesState)
      \<Longrightarrow> renderGap usdState beesState mdl view = view \<and>
          renderGap_v2 usdState beesState view = view"
    by (simp add: renderGap_def renderGap_v2_def)
  have f: "(\<not> truthy (cur usdState) \<or> \<not> truthy (anchor1530 usdState) \<or> \<not> truthy (cur beesState))
      = (cur usdState = None \<or> cur usdState = Some 0 \<or>
         anchor1530 usdState = None \<or> anchor1530 usdState = Some 0 \<or>
         cur beesState = None \<or> cur beesState = Some 0)"
    by (simp add: falsy_iff disj_ac)
  have t: "\<And>v. truthy v \<Longrightarrow> \<exists>x. v = Some x \<and> x \<noteq> 0"
    by (simp add: truthy_def split: option.splits)
  show ?thesis
  proof (intro conjI impI)
    assume "cur usdState = None \<or> cur usdState = Some 0 \<or>
         anchor1530 usdState = None \<or> anchor1530 usdState = Some 0 \<or>
         cur beesState = None \<or> cur beesState = Some 0"
    then have "\<not> truthy (cur usdState) \<or> \<not> truthy (anchor1530 usdState) \<or> \<not> truthy (cur beesState)"
      by (simp only: f)
    then show "renderGap usdState beesState mdl view = view" 
      and "renderGap_v2 usdState beesState view = view" using g by simp_all
  next
    assume "renderGap usdState beesState mdl view \<noteq> view \<or> renderGap_v2 usdState beesState view \<noteq> view"
    then have "truthy (cur usdState)" "truthy (anchor1530 usdState)" "truthy (cur beesState)"
      using g by blast+
    then show "\<exists>c a l. cur usdState = Some c \<and> c \<noteq> 0 \<and> anchor1530 usdState = Some a \<and> a \<noteq> 0 \<and>
                   cur beesState = Some l \<and> l \<noteq> 0"
      using t by blast
  qed
qed

theorem renderGap_guard_witness:
  "anchor1530 \<lparr> cur = Some 2650, prev = Some 2645, anchor1530 = Some 0 \<rparr> = Some 0 \<and>
   renderGap \<lparr> cur = Some 2650, prev = Some 2645, anchor1530 = Some 0 \<rparr>
     \<lparr> cur = Some 100, prev = Some 99 \<rparr> GOLD_MODEL
     \<lparr> anchorText = None, nowText = None, pctText = None, pctClass = [],
       expText = None, expClass = [] \<rparr>
     = \<lparr> anchorText = None, nowText = None, pctText = None, pctClass = [],
         expText = None, expClass = [] \<rparr> \<and>
   renderGap_v2 \<lparr> cur = Some 2650, prev = Some 2645, anchor1530 = Some 0 \<rparr>
     \<lparr> cur = Some 100, prev = Some 99 \<rparr>
     \<lparr> anchorText = None, nowText = None, pctText = None, pctClass = [],
       expText = None, expClass = [] \<rparr>
     = \<lparr> anchorText = None, nowText = None, pctText = None, pctClass = [],
         expText = None, expClass = [] \<rparr> \<and>
   renderGap \<lparr> cur = Some 2650, prev = Some 2645, anchor1530 = Some 2640 \<rparr>
     \<lparr> cur = Some 100, prev = Some 99 \<rparr> GOLD_MODEL
     \<lparr> anchorText = None, nowText = None, pctText = None, pctClass = [],
       expText = None, expClass = [] \<rparr>
     \<noteq> \<lparr> anchorText = None, nowText = None, pctText = None, pctClass = [],
         expText = None, expClass = [] \<rparr>"
proof -
  let ?z = "\<lparr> cur = Some 2650, prev = Some 2645, anchor1530 = Some (0::real) \<rparr>"
  let ?u = "\<lparr> cur = Some 2650, prev = Some 2645, anchor1530 = Some (2640::real) \<rparr>"
  let ?b = "\<lparr> cur = Some (100::real), prev = Some 99 \<rparr>"
  let ?v = "\<lparr> anchorText = None, nowText = None, pctText = None, pctClass = [],
              expText = None, expClass = [] \<rparr>"
  have a: "anchor1530 ?z = Some 0" by simp
  have "anchorText (renderGap ?u ?b GOLD_MODEL ?v) = Some 2640"
    by (subst renderGap_run [where c = 2650 and a = 2640 and l = 100]) simp_all
  then have n: "renderGap ?u ?b GOLD_MODEL ?v \<noteq> ?v" by auto
  show ?thesis
    using renderGap_guard [of ?z ?b GOLD_MODEL ?v] a n by simp
qed

section \<open>Claims about the exchange calendar\<close>

text \<open>
  C7.  For every date, \<open>getNextNseDay\<close> returns midnight of the first calendar day
  strictly after the input day that is a weekday (Monday to Friday) and not in the NSE
  holiday table: it is reached within the 14 rounds of the loop, no day between the
  input and the result is a trading day, and the result is never the input day.  In
  particular, on a Friday whose following Monday is a holiday the result is the
  Tuesday, four days later.
\<close>

theorem getNextNseDay_first_trading_day:
  assumes "valid_date now"
  shows "(\<exists>k<14. getNextNseDay now = (incDate ^^ Suc k) (setHours0 now) \<and>
            is_trading_day (getNextNseDay now) \<and>
            (\<forall>j<k. \<not> is_trading_day ((incDate ^^ Suc j) (setHours0 now))) \<and>
            dayNumber (getNextNseDay now) = dayNumber now + 1 + int k \<and>
            ymd (getNextNseDay now) \<noteq> ymd now) \<and>
         (getDay now = 5 \<and> isNseHoliday ((incDate ^^ 3) now)
            \<longrightarrow> getNextNseDay now = (incDate ^^ 4) (setHours0 now) \<and>
                getDay (getNextNseDay now) = 2)"
proof -
  define c where "c = setHours0 (incDate now)"
  have vc: "valid_date c" unfolding c_def using assms by (simp add: valid_setHours0 valid_incDate)
  have iter: "\<And>k. (incDate ^^ k) c = (incDate ^^ Suc k) (setHours0 now)"
    unfolding c_def by (simp add: setHours0_simps funpow_swap1)
  have dn: "\<And>k. dayNumber ((incDate ^^ k) c) = dayNumber now + 1 + int k"
    using funpow_incDate [OF vc] by (simp add: c_def setHours0_simps dayNumber_incDate [OF assms])
  have gd: "\<And>k. getDay ((incDate ^^ k) c) = (getDay now + 1 + k) mod 7"
    using getDay_funpow [OF vc]
    by (simp add: c_def setHours0_simps getDay_incDate [OF assms] mod_simps)
  have general: "\<exists>k<14. getNextNseDay now = (incDate ^^ Suc k) (setHours0 now) \<and>
            is_trading_day (getNextNseDay now) \<and>
            (\<forall>j<k. \<not> is_trading_day ((incDate ^^ Suc j) (setHours0 now))) \<and>
            dayNumber (getNextNseDay now) = dayNumber now + 1 + int k \<and>
            ymd (getNextNseDay now) \<noteq> ymd now"
  proof -
    have "\<exists>k. k < 14 \<and> is_trading_day ((incDate ^^ k) c)"
      using trading_day_within_fortnight [OF vc] by blast
    then obtain k where k: "k < 14 \<and> is_trading_day ((incDate ^^ k) c)"
        "\<forall>j<k. \<not> (j < 14 \<and> is_trading_day ((incDate ^^ j) c))"
      using exists_least_iff [of "\<lambda>k. k < 14 \<and> is_trading_day ((incDate ^^ k) c)"] by blast
    then have first: "\<forall>j<k. \<not> is_trading_day ((incDate ^^ j) c)" by auto
    have r: "getNextNseDay now = (incDate ^^ k) c"
      unfolding getNextNseDay_def c_def [symmetric]
      using k(1) first by (intro next_nse_loop_first) simp_all
    have "dayNumber (getNextNseDay now) \<noteq> dayNumber now" by (simp add: r dn)
    then have "ymd (getNextNseDay now) \<noteq> ymd now" using dayNumber_ymd by blast
    then show ?thesis using k(1) first r dn [of k] by (intro exI [of _ k]) (simp add: iter)
  qed
  have friday: "getNextNseDay now = (incDate ^^ 4) (setHours0 now) \<and> getDay (getNextNseDay now) = 2"
    if f: "getDay now = 5" and h: "isNseHoliday ((incDate ^^ 3) now)"
  proof -
    have mon: "(incDate ^^ 2) c = setHours0 ((incDate ^^ 3) now)"
      by (simp add: c_def eval_nat_numeral setHours0_simps)
    have hm: "isNseHoliday ((incDate ^^ 2) c)" using h by (simp only: mon setHours0_simps)
    have gm: "getDay ((incDate ^^ 2) c) = 1" by (simp add: gd f)
    have vm: "valid_date ((incDate ^^ 2) c)" using funpow_incDate [OF vc] by blast
    have "is_trading_day (incDate ((incDate ^^ 2) c))" using vm hm gm by (rule monday_holiday_next)
    then have t3: "is_trading_day ((incDate ^^ 3) c)" by (simp add: eval_nat_numeral)
    have n0: "\<not> is_trading_day ((incDate ^^ 0) c)"
      using gd [of 0] f by (simp add: is_trading_day_def)
    have n1: "\<not> is_trading_day ((incDate ^^ 1) c)"
      using gd [of 1] f by (simp add: is_trading_day_def)
    have n2: "\<not> is_trading_day ((incDate ^^ 2) c)"
      using hm by (simp add: is_trading_day_def)
    have before: "\<forall>j<3. \<not> is_trading_day ((incDate ^^ j) c)"
    proof (intro allI impI)
      fix j :: nat assume "j < 3"
      then have "j = 0 \<or> j = 1 \<or> j = 2" by arith
      then show "\<not> is_trading_day ((incDate ^^ j) c)" using n0 n1 n2 by blast
    qed
    have r: "getNextNseDay now = (incDate ^^ 3) c"
      unfolding getNextNseDay_def c_def [symmetric]
      using t3 before by (intro next_nse_loop_first) simp_all
    have "(incDate ^^ 3) c = (incDate ^^ 4) (setHours0 now)"
      using iter [of 3] by (simp add: eval_nat_numeral)
    moreover have "getDay ((incDate ^^ 3) c) = 2" by (simp add: gd f)
    ultimately show ?thesis using r by simp
  qed
  show ?thesis using general friday by blast
qed

theorem getNextNseDay_first_trading_day_witness:
  "valid_date \<lparr>getFullYear = 2026, getMonth = 0, getDate = 23, getHours = 16, getMinutes = 0\<rparr> \<and>
   getDay \<lparr>getFullYear = 2026, getMonth = 0, getDate = 23, getHours = 16, getMinutes = 0\<rparr> = 5 \<and>
   (incDate ^^ 3) \<lparr>getFullYear = 2026, getMonth = 0, getDate = 23, getHours = 16, getMinutes = 0\<rparr>
     = \<lparr>getFullYear = 2026, getMonth = 0, getDate = 26, getHours = 16, getMinutes = 0\<rparr> \<and>
   isNseHoliday \<lparr>getFullYear = 2026, getMonth = 0, getDate = 26, getHours = 16, getMinutes = 0\<rparr> \<and>
   getNextNseDay \<lparr>getFullYear = 2026, getMonth = 0, getDate = 23, getHours = 16, getMinutes = 0\<rparr>
     = \<lparr>getFullYear = 2026, getMonth = 0, getDate = 27, getHours = 0, getMinutes = 0\<rparr> \<and>
   getDay \<lparr>getFullYear = 2026, getMonth = 0, getDate = 27, getHours = 0, getMinutes = 0\<rparr> = 2"
proof -
  let ?f = "\<lparr>getFullYear = 2026, getMonth = 0, getDate = 23, getHours = 16, getMinutes = 0\<rparr>"
  let ?m = "\<lparr>getFullYear = 2026, getMonth = 0, getDate = 26, getHours = 16, getMinutes = 0\<rparr>"
  let ?t = "\<lparr>getFullYear = 2026, getMonth = 0, getDate = 27, getHours = 0, getMinutes = 0\<rparr>"
  have v: "valid_date ?f" by (simp add: valid_date_def daysInMonth_def)
  have f: "getDay ?f = 5"
    by (simp add: getDay_def dayNumber_def DayFromYear_def daysBeforeMonth_def leap_year_def)
  have m: "(incDate ^^ 3) ?f = ?m"
    by (simp add: eval_nat_numeral incDate_def daysInMonth_def)
  have h: "isNseHoliday ?m"
    by (simp add: isNseHoliday_def toISTDateString_def showInt_def showNat.simps padStart2_def
          digit_char_def NSE_HOLIDAYS_def)
  have t: "(incDate ^^ 4) (setHours0 ?f) = ?t"
    by (simp add: eval_nat_numeral incDate_def daysInMonth_def setHours0_def)
  have imp: "getDay ?f = 5 \<and> isNseHoliday ((incDate ^^ 3) ?f)
      \<longrightarrow> getNextNseDay ?f = (incDate ^^ 4) (setHours0 ?f) \<and> getDay (getNextNseDay ?f) = 2"
    using getNextNseDay_first_trading_day [OF v] by (rule conjunct2)
  have h': "isNseHoliday ((incDate ^^ 3) ?f)" using h by (simp only: m)
  from imp f h' have c1: "getNextNseDay ?f = (incDate ^^ 4) (setHours0 ?f)"
    and c2: "getDay (getNextNseDay ?f) = 2" by blast+
  have r: "getNextNseDay ?f = ?t" using c1 t by (rule trans)
  have g: "getDay ?t = 2" using c2 unfolding r .
  show ?thesis using v f m h r g by blast
qed

section \<open>Claims about the gating of the prediction section\<close>

text \<open>
  C8.  On a Saturday or a Sunday, at any time of the day, \<open>updatePredictionSection\<close>
  (with the banner and the cards present in the page) shows the locked banner with the
  text that the exchange is closed today, naming the next trading day, and hides the
  prediction cards.
\<close>

theorem weekend_locked_non_trading_day:
  assumes "elsPresent ui" and "getDay ist = 0 \<or> getDay ist = 6"
  shows "bannerClass (updatePredictionSection ist now1 now2 now3 ui)
           = ''prediction-banner banner-locked'' \<and>
         bannerHTML (updatePredictionSection ist now1 now2 now3 ui)
           = Some (ClosedToday (getNextNseDay now1)) \<and>
         bannerDisplay (updatePredictionSection ist now1 now2 now3 ui) = ''flex'' \<and>
         cardsDisplay (updatePredictionSection ist now1 now2 now3 ui) = ''none'' \<and>
         priceWrapDisplay (updatePredictionSection ist now1 now2 now3 ui) = priceWrapDisplay ui"
proof -
  have nw: "\<not> (1 \<le> getDay ist \<and> getDay ist \<le> 5)" using assms(2) by auto
  show ?thesis using assms(1) nw
    by (auto simp: updatePredictionSection_def Let_def)
qed

theorem weekend_locked_non_trading_day_witness:
  "getDay \<lparr>getFullYear = 2026, getMonth = 0, getDate = 24, getHours = 16, getMinutes = 0\<rparr> = 6 \<and>
   cardsDisplay (updatePredictionSection
      \<lparr>getFullYear = 2026, getMonth = 0, getDate = 24, getHours = 16, getMinutes = 0\<rparr>
      \<lparr>getFullYear = 2026, getMonth = 0, getDate = 24, getHours = 16, getMinutes = 0\<rparr>
      \<lparr>getFullYear = 2026, getMonth = 0, getDate = 24, getHours = 16, getMinutes = 0\<rparr>
      \<lparr>getFullYear = 2026, getMonth = 0, getDate = 24, getHours = 16, getMinutes = 0\<rparr>
      \<lparr>elsPresent = True, labelPresent = True, sectionLabel = None, bannerClass = [],
        bannerHTML = None, bannerDisplay = [], cardsDisplay = ''grid'',
        priceWrapDisplay = []\<rparr>) = ''none'' \<and>
   bannerClass (updatePredictionSection
      \<lparr>getFullYear = 2026, getMonth = 0, getDate = 24, getHours = 16, getMinutes = 0\<rparr>
      \<lparr>getFullYear = 2026, getMonth = 0, getDate = 24, getHours = 16, getMinutes = 0\<rparr>
      \<lparr>getFullYear = 2026, getMonth = 0, getDate = 24, getHours = 16, getMinutes = 0\<rparr>
      \<lparr>getFullYear = 2026, getMonth = 0, getDate = 24, getHours = 16, getMinutes = 0\<rparr>
      \<lparr>elsPresent = True, labelPresent = True, sectionLabel = None, bannerClass = [],
        bannerHTML = None, bannerDisplay = [], cardsDisplay = ''grid'',
        priceWrapDisplay = []\<rparr>) = ''prediction-banner banner-locked''"
proof -
  let ?sat = "\<lparr>getFullYear = 2026, getMonth = 0, getDate = 24, getHours = 16, getMinutes = 0\<rparr>"
  let ?ui = "\<lparr>elsPresent = True, labelPresent = True, sectionLabel = None, bannerClass = [],
        bannerHTML = None, bannerDisplay = [], cardsDisplay = ''grid'',
        priceWrapDisplay = []\<rparr>"
  have e: "elsPresent ?ui" by simp
  have g: "getDay ?sat = 6"
    by (simp add: getDay_def dayNumber_def DayFromYear_def daysBeforeMonth_def leap_year_def)
  then have w: "getDay ?sat = 0 \<or> getDay ?sat = 6" by simp
  show ?thesis
    using weekend_locked_non_trading_day [OF e w, of ?sat ?sat ?sat] g by blast
qed

end

